theory Spec2Isabelle
  imports Main
begin

section \<open>Values of the server\<close>

text \<open>
  The server (an Express application) handles values that are either a string or
  missing (\<^verbatim>\<open>null\<close>/\<^verbatim>\<open>undefined\<close>): environment variables, query
  parameters, header values, the cached token. They are modelled as \<open>string option\<close>
  with \<open>None\<close> for the missing value. Strings are modelled by their UTF-8 bytes.

  \<open>truthy\<close> is the test that \<^verbatim>\<open>if (v)\<close> and \<^verbatim>\<open>!v\<close> perform: a missing value
  and the empty string are falsy. \<open>template\<close> is the text that a template literal
  \<^verbatim>\<open>${v}\<close> inserts: a missing value becomes the text \<^verbatim>\<open>undefined\<close>.
\<close>

definition truthy :: "string option \<Rightarrow> bool" where
  "truthy v = (case v of None \<Rightarrow> False | Some s \<Rightarrow> s \<noteq> [])"

definition template :: "string option \<Rightarrow> string" where
  "template v = (case v of None \<Rightarrow> ''undefined'' | Some s \<Rightarrow> s)"

text \<open>
  What a handler does besides answering: console output (the fixed first argument of the
  call; further arguments are not recorded) and outbound HTTP requests. \<open>HttpPost\<close> is the
  token request, with its URL and the credentials \<^verbatim>\<open>id:secret\<close> that the source
  sends base64-encoded in the \<^verbatim>\<open>Authorization: Basic\<close> header. \<open>HttpGet\<close> is the
  upstream request of the proxy, with its URL and its headers in the order the source
  adds them.
\<close>

datatype effect =
    ConsoleLog string
  | ConsoleError string
  | HttpPost string string
  | HttpGet string "(string \<times> string) list"

fun is_network :: "effect \<Rightarrow> bool" where
  "is_network (HttpPost _ _) = True"
| "is_network (HttpGet _ _) = True"
| "is_network _ = False"

section \<open>Token manager\<close>

text \<open>The three environment variables, read once when the process starts.\<close>

record config =
  DATABRICKS_CLIENT_ID :: "string option"
  DATABRICKS_CLIENT_SECRET :: "string option"
  DATABRICKS_HOST :: "string option"

text \<open>
  A \<^verbatim>\<open>Date\<close>: a time value, in milliseconds since the epoch and of magnitude at
  most 8.64e15, or the Invalid Date. \<open>new_Date v\<close> is \<^verbatim>\<open>new Date(v)\<close> for an
  integer \<open>v\<close>. Clock readings (\<^verbatim>\<open>Date.now()\<close>, \<^verbatim>\<open>new Date()\<close>) are time
  values, given as integers.
\<close>

datatype js_date = ValidDate int | InvalidDate

definition new_Date :: "int \<Rightarrow> js_date" where
  "new_Date v = (if \<bar>v\<bar> \<le> 8640000000000000 then ValidDate v else InvalidDate)"

text \<open>The two module-level variables; both start as \<^verbatim>\<open>null\<close>.\<close>

record token_state =
  accessToken :: "string option"
  tokenExpiry :: "js_date option"

definition initial_state :: token_state where
  "initial_state = \<lparr>accessToken = None, tokenExpiry = None\<rparr>"

text \<open>
  What the identity endpoint answers to the token request: no answer at all (a network
  error), or a status code and a body. \<open>token_data\<close> is \<^verbatim>\<open>response.data\<close> with its two
  fields that the source reads, each possibly missing; the body itself is \<open>None\<close> when
  it is \<^verbatim>\<open>null\<close>, where reading a field of it throws. \<^verbatim>\<open>access_token\<close> is
  taken to be a text when it is there. \<^verbatim>\<open>expires_in\<close> is
  \<open>None\<close> when it is missing, \<^verbatim>\<open>null\<close>, \<^verbatim>\<open>false\<close> or the empty text,
  \<open>Seconds n\<close> when it is the integer number \<open>n\<close>, and \<open>NotANumber\<close> when it is a
  truthy value whose product with 1000 is \<^verbatim>\<open>NaN\<close>, such as the text
  \<^verbatim>\<open>soon\<close> or an object. Other values (a number with a fractional part, a text
  or an array that converts to a number, \<^verbatim>\<open>true\<close>) are not modelled. On integers
  the source's floating-point sum \<^verbatim>\<open>Date.now() + expiresIn * 1000\<close> is the exact
  sum whenever that is a time value, and is out of the range of a \<^verbatim>\<open>Date\<close>
  whenever the exact sum is.
\<close>

datatype seconds = Seconds int | NotANumber

record token_data =
  access_token :: "string option"
  expires_in :: "seconds option"

datatype post_outcome =
    PostNetworkError
  | PostResponse nat "token_data option"

text \<open>
  \<^verbatim>\<open>fetchDatabricksToken()\<close>. \<open>outcome\<close> is the answer the identity endpoint gives if it
  is asked, \<open>now\<close> the value of \<^verbatim>\<open>Date.now()\<close> when the answer has arrived. The result
  is the returned token, the new token state and the effects in order.
  \<^verbatim>\<open>axios.post\<close> rejects on a network error and on a status outside 200..299;
  every exception of the \<^verbatim>\<open>try\<close> block ends in the \<^verbatim>\<open>catch\<close> branch.
\<close>

definition fetchDatabricksToken ::
  "config \<Rightarrow> post_outcome \<Rightarrow> int \<Rightarrow> token_state \<Rightarrow> string option \<times> token_state \<times> effect list" where
  "fetchDatabricksToken cfg outcome now st =
    (if \<not> truthy (DATABRICKS_CLIENT_ID cfg) \<or> \<not> truthy (DATABRICKS_CLIENT_SECRET cfg)
        \<or> \<not> truthy (DATABRICKS_HOST cfg)
     then (None, st,
       [ConsoleError ''Missing (some) required environment variables: DATABRICKS_CLIENT_ID, DATABRICKS_CLIENT_SECRET, DATABRICKS_HOST''])
     else
       let TOKEN_URL = ''https://'' @ template (DATABRICKS_HOST cfg) @ ''/oidc/v1/token'';
           auth = template (DATABRICKS_CLIENT_ID cfg) @ '':'' @ template (DATABRICKS_CLIENT_SECRET cfg);
           post = HttpPost TOKEN_URL auth;
           failed = (None, st, [post, ConsoleError ''Error fetching token:''])
       in case outcome of
            PostNetworkError \<Rightarrow> failed
          | PostResponse status data \<Rightarrow>
              if \<not> (200 \<le> status \<and> status < 300) then failed
              else (case data of
                  None \<Rightarrow> failed
                | Some d \<Rightarrow>
                    let expiresIn = (case expires_in d of
                                       None \<Rightarrow> Seconds 3600
                                     | Some (Seconds n) \<Rightarrow> if n = 0 then Seconds 3600 else Seconds n
                                     | Some NotANumber \<Rightarrow> NotANumber);
                        st' = st\<lparr>accessToken := access_token d,
                                 tokenExpiry := Some (case expiresIn of
                                                        Seconds n \<Rightarrow> new_Date (now + n * 1000)
                                                      | NotANumber \<Rightarrow> InvalidDate)\<rparr>
                    in (access_token d, st', [post, ConsoleLog ''Access Token fetched successfully''])))"

text \<open>
  \<^verbatim>\<open>getValidAccessToken()\<close>. \<open>now\<close> is the time of the expiry check
  (\<^verbatim>\<open>new Date()\<close>); \<open>outcome\<close> and \<open>now'\<close> are handed to the fetch if there is one.
  A cached \<^verbatim>\<open>Date\<close> is truthy also when it is the Invalid Date, and a comparison
  with the Invalid Date is false.
\<close>

definition getValidAccessToken ::
  "config \<Rightarrow> int \<Rightarrow> post_outcome \<Rightarrow> int \<Rightarrow> token_state \<Rightarrow> string option \<times> token_state \<times> effect list" where
  "getValidAccessToken cfg now outcome now' st =
    (if \<not> truthy (accessToken st)
        \<or> (case tokenExpiry st of
              None \<Rightarrow> True
            | Some InvalidDate \<Rightarrow> False
            | Some (ValidDate e) \<Rightarrow>
                (case new_Date (e - 5 * 60 * 1000) of
                   ValidDate t \<Rightarrow> now > t
                 | InvalidDate \<Rightarrow> False))
     then (case fetchDatabricksToken cfg outcome now' st of
             (_, st', es) \<Rightarrow>
               (accessToken st', st',
                ConsoleLog ''Token expired or expiring soon, fetching new token...'' # es))
     else (accessToken st, st, []))"

text \<open>
  The token state changes only inside \<^verbatim>\<open>fetchDatabricksToken\<close>, in one synchronous
  step when an answer has arrived. A run of the process is therefore, for the token
  state, the list of the answers to its token fetches in the order of their arrival
  (the fetch at startup and those of \<^verbatim>\<open>getValidAccessToken\<close>), each with its arrival
  time.
\<close>

fun run_fetches :: "config \<Rightarrow> token_state \<Rightarrow> (post_outcome \<times> int) list \<Rightarrow> token_state" where
  "run_fetches cfg st [] = st"
| "run_fetches cfg st ((outcome, now) # rest) =
     run_fetches cfg (fst (snd (fetchDatabricksToken cfg outcome now st))) rest"

text \<open>
  The body of the answer that a fetch stores: the configuration is complete, the status
  is in 200..299 and the body is not \<^verbatim>\<open>null\<close>. These are the fetches that reach
  \<^verbatim>\<open>return accessToken\<close>; every other fetch returns \<^verbatim>\<open>null\<close> early or from
  the \<^verbatim>\<open>catch\<close> branch.
\<close>

definition granted :: "config \<Rightarrow> post_outcome \<Rightarrow> token_data option" where
  "granted cfg outcome =
    (if truthy (DATABRICKS_CLIENT_ID cfg) \<and> truthy (DATABRICKS_CLIENT_SECRET cfg)
        \<and> truthy (DATABRICKS_HOST cfg)
     then (case outcome of
             PostNetworkError \<Rightarrow> None
           | PostResponse status data \<Rightarrow> if 200 \<le> status \<and> status < 300 then data else None)
     else None)"

text \<open>The bodies that the fetches of a run store, in order.\<close>

definition grants :: "config \<Rightarrow> (post_outcome \<times> int) list \<Rightarrow> token_data list" where
  "grants cfg outs = List.map_filter (\<lambda>(outcome, now). granted cfg outcome) outs"

section \<open>Percent-encoding\<close>

text \<open>
  \<^verbatim>\<open>encodeURIComponent\<close> and \<^verbatim>\<open>decodeURIComponent\<close> of ECMA-262, on a string
  given by its UTF-8 bytes (a string without lone surrogates, as every string is that
  comes from the environment, a query string or a header). Encoding keeps the letters,
  the digits and \<^verbatim>\<open>- _ . ! ~ * ' ( )\<close> and writes every other byte as \<^verbatim>\<open>%XX\<close>
  with upper-case digits.
\<close>

definition uri_unreserved :: "char \<Rightarrow> bool" where
  "uri_unreserved c \<longleftrightarrow>
     c \<in> set ''ABCDEFGHIJKLMNOPQRSTUVWXYZabcdefghijklmnopqrstuvwxyz0123456789-_.!~*()''
     \<or> c = CHR 0x27"

definition hex_digit :: "nat \<Rightarrow> char" where
  "hex_digit n = (if n < 10 then char_of (48 + n) else char_of (55 + n))"

definition encodeURIComponent :: "string \<Rightarrow> string" where
  "encodeURIComponent s =
     concat (map (\<lambda>c. if uri_unreserved c then [c]
                        else [CHR ''%'', hex_digit (of_char c div 16), hex_digit (of_char c mod 16)]) s)"

text \<open>
  Decoding throws a \<^verbatim>\<open>URIError\<close> (\<open>None\<close>) when a \<^verbatim>\<open>%\<close> is not followed by two
  hexadecimal digits, or when the escaped bytes from 0x80 up are not, escape after
  escape, the well-formed UTF-8 encoding of a code point. \<open>uri_tokens\<close> reads the
  escapes; \<open>utf8_decode k lo hi\<close> checks the bytes, with \<open>k\<close> the number of
  continuation bytes still due and \<open>lo..hi\<close> the range of the next one.
\<close>

definition hex_value :: "char \<Rightarrow> nat option" where
  "hex_value c =
     (let n = (of_char c :: nat)
      in if 48 \<le> n \<and> n \<le> 57 then Some (n - 48)
         else if 65 \<le> n \<and> n \<le> 70 then Some (n - 55)
         else if 97 \<le> n \<and> n \<le> 102 then Some (n - 87)
         else None)"

datatype uri_token = Literal char | Escaped nat

fun uri_tokens :: "string \<Rightarrow> uri_token list option" where
  "uri_tokens [] = Some []"
| "uri_tokens (c # cs) =
     (if c = CHR ''%''
      then (case cs of
              h1 # h2 # rest \<Rightarrow>
                (case (hex_value h1, hex_value h2) of
                   (Some a, Some b) \<Rightarrow> map_option ((#) (Escaped (16 * a + b))) (uri_tokens rest)
                 | _ \<Rightarrow> None)
            | _ \<Rightarrow> None)
      else map_option ((#) (Literal c)) (uri_tokens cs))"

fun utf8_decode :: "nat \<Rightarrow> nat \<Rightarrow> nat \<Rightarrow> uri_token list \<Rightarrow> string option" where
  "utf8_decode k lo hi [] = (if k = 0 then Some [] else None)"
| "utf8_decode k lo hi (Literal c # ts) =
     (if k = 0 then map_option ((#) c) (utf8_decode 0 0 0 ts) else None)"
| "utf8_decode k lo hi (Escaped b # ts) =
     (if k = 0 then
        (if b < 0x80 then map_option ((#) (char_of b)) (utf8_decode 0 0 0 ts)
         else if 0xC2 \<le> b \<and> b \<le> 0xDF then map_option ((#) (char_of b)) (utf8_decode 1 0x80 0xBF ts)
         else if b = 0xE0 then map_option ((#) (char_of b)) (utf8_decode 2 0xA0 0xBF ts)
         else if 0xE1 \<le> b \<and> b \<le> 0xEC then map_option ((#) (char_of b)) (utf8_decode 2 0x80 0xBF ts)
         else if b = 0xED then map_option ((#) (char_of b)) (utf8_decode 2 0x80 0x9F ts)
         else if 0xEE \<le> b \<and> b \<le> 0xEF then map_option ((#) (char_of b)) (utf8_decode 2 0x80 0xBF ts)
         else if b = 0xF0 then map_option ((#) (char_of b)) (utf8_decode 3 0x90 0xBF ts)
         else if 0xF1 \<le> b \<and> b \<le> 0xF3 then map_option ((#) (char_of b)) (utf8_decode 3 0x80 0xBF ts)
         else if b = 0xF4 then map_option ((#) (char_of b)) (utf8_decode 3 0x80 0x8F ts)
         else None)
      else if lo \<le> b \<and> b \<le> hi
        then map_option ((#) (char_of b)) (utf8_decode (k - 1) 0x80 0xBF ts)
        else None)"

definition decodeURIComponent :: "string \<Rightarrow> string option" where
  "decodeURIComponent s =
     (case uri_tokens s of None \<Rightarrow> None | Some ts \<Rightarrow> utf8_decode 0 0 0 ts)"

text \<open>\<^verbatim>\<open>hay.includes(needle)\<close>: \<open>needle\<close> occurs in \<open>hay\<close>.\<close>

fun includes_str :: "string \<Rightarrow> string \<Rightarrow> bool" where
  "includes_str [] needle = (needle = [])"
| "includes_str (c # cs) needle =
     (take (length needle) (c # cs) = needle \<or> includes_str cs needle)"

section \<open>Requests and responses\<close>

text \<open>
  What a handler reads of an Express request: \<^verbatim>\<open>req.query\<close>, \<^verbatim>\<open>req.headers\<close>
  (names in lower case; \<^verbatim>\<open>req.get('host')\<close> is the \<^verbatim>\<open>host\<close> entry) and
  \<^verbatim>\<open>req.protocol\<close>. Query parameters are taken to be strings.
\<close>

record request =
  query :: "string \<rightharpoonup> string"
  headers :: "string \<rightharpoonup> string"
  protocol :: string

datatype json =
    JString string
  | JNumber int
  | JArray "json list"
  | JObject "(string \<times> json) list"

text \<open>
  The Express response as the handler's calls leave it: \<^verbatim>\<open>res.status\<close>,
  \<^verbatim>\<open>res.set\<close>, \<^verbatim>\<open>res.json\<close>, \<^verbatim>\<open>res.write\<close>, \<^verbatim>\<open>res.end\<close>. A new response
  has status 200. Headers that Express adds by itself are not recorded.
\<close>

record response =
  statusCode :: nat
  header :: "string \<rightharpoonup> string"
  json_body :: "json option"
  written :: "string list"
  ended :: bool

definition new_response :: response where
  "new_response = \<lparr>statusCode = 200, header = Map.empty, json_body = None, written = [], ended = False\<rparr>"

definition res_status :: "nat \<Rightarrow> response \<Rightarrow> response" where
  "res_status n res = res\<lparr>statusCode := n\<rparr>"

definition res_set :: "string \<Rightarrow> string \<Rightarrow> response \<Rightarrow> response" where
  "res_set name v res = res\<lparr>header := (header res)(name \<mapsto> v)\<rparr>"

definition res_json :: "json \<Rightarrow> response \<Rightarrow> response" where
  "res_json j res = res\<lparr>json_body := Some j, ended := True\<rparr>"

definition res_write :: "string \<Rightarrow> response \<Rightarrow> response" where
  "res_write chunk res = res\<lparr>written := written res @ [chunk]\<rparr>"

definition res_end :: "response \<Rightarrow> response" where
  "res_end res = res\<lparr>ended := True\<rparr>"

text \<open>
  What the upstream store answers to the proxy's \<^verbatim>\<open>fetch\<close>: no answer (the promise
  rejects), or a status, headers (\<^verbatim>\<open>response.headers.get\<close>, names in lower case)
  and a body. The body is \<open>None\<close> when \<^verbatim>\<open>response.body\<close> is \<^verbatim>\<open>null\<close>; otherwise
  it is the chunks that the reader delivers, and whether a read fails after them
  instead of reporting the end.
\<close>

record upstream_response =
  up_status :: nat
  up_headers :: "string \<rightharpoonup> string"
  up_body :: "(string list \<times> bool) option"

datatype fetch_outcome =
    FetchNetworkError
  | FetchResponse upstream_response

text \<open>
  Everything outside the process that a proxy request meets: the clock at the expiry
  check, the answer of the identity endpoint and the clock at its arrival (used if the
  token is fetched), and the answer of the upstream store (used if it is asked).
\<close>

record world =
  check_time :: int
  token_outcome :: post_outcome
  token_time :: int
  upstream :: fetch_outcome

section \<open>The proxy endpoint\<close>

text \<open>
  The streaming loop \<^verbatim>\<open>pump\<close>: every chunk the reader delivers is written to the
  response; the response is ended when the reader reports the end, and ended with
  status 500 when a read fails.
\<close>

definition pump :: "string list \<Rightarrow> bool \<Rightarrow> response \<Rightarrow> response \<times> effect list" where
  "pump chunks fails res =
     (let res' = foldl (\<lambda>r chunk. res_write chunk r) res chunks
      in if fails then (res_end (res_status 500 res'), [ConsoleError ''Streaming error:''])
         else (res_end res', []))"

text \<open>
  The test \<^verbatim>\<open>isTileJsonRequest\<close> of the handler: no \<^verbatim>\<open>Range\<close> header (or an empty
  one), and an \<^verbatim>\<open>Accept\<close> header in which \<^verbatim>\<open>application/json\<close> occurs.
\<close>

definition isTileJsonRequest :: "request \<Rightarrow> bool" where
  "isTileJsonRequest req \<longleftrightarrow>
     \<not> truthy (headers req ''range'') \<and> truthy (headers req ''accept'')
     \<and> includes_str (template (headers req ''accept'')) ''application/json''"

text \<open>
  The handler of \<^verbatim>\<open>GET /proxy/pmtiles\<close>, with the streaming it starts run to its end.
  The URL is decoded if it decodes and used as it is if decoding throws.
  The result is the response, the token state and the effects in order.
\<close>

definition proxy_pmtiles ::
  "config \<Rightarrow> world \<Rightarrow> request \<Rightarrow> token_state \<Rightarrow> response \<times> token_state \<times> effect list" where
  "proxy_pmtiles cfg w req st =
    (let received = ConsoleLog ''Proxy request received for URL:''
     in if \<not> truthy (query req ''url'')
        then (res_json (JObject [(''error'', JString ''URL parameter required'')])
                (res_status 400 new_response), st, [received])
        else
          let raw = template (query req ''url'');
              url = (case decodeURIComponent raw of Some d \<Rightarrow> d | None \<Rightarrow> raw);
              decoded = ConsoleLog (case decodeURIComponent raw of
                                      Some d \<Rightarrow> ''Decoded URL:''
                                    | None \<Rightarrow> ''URL was not encoded, using as-is'')
          in if isTileJsonRequest req
             then (res_json
                     (JObject
                        [(''type'', JString ''vector''),
                         (''tiles'', JArray [JString (protocol req @ ''://''
                             @ template (headers req ''host'') @ ''/proxy/pmtiles?url='' @ url)]),
                         (''minzoom'', JNumber 0),
                         (''maxzoom'', JNumber 14)])
                     new_response, st, [received, decoded])
             else
               let range = headers req ''range'';
                   (authToken, st', token_effects) =
                     getValidAccessToken cfg (check_time w) (token_outcome w) (token_time w) st;
                   hdrs = [(''User-Agent'', ''PMTiles-Viewer/1.0'')]
                     @ (if truthy authToken
                        then [(''Authorization'', ''Bearer '' @ template authToken)] else [])
                     @ (if truthy range then [(''Range'', template range)] else []);
                   before = [received, decoded] @ token_effects
                     @ [ConsoleLog (if truthy authToken
                                    then ''Using Databricks auth token for PMTiles request''
                                    else ''No auth token available for PMTiles request''),
                        ConsoleLog ''Fetching URL with headers:'',
                        HttpGet url hdrs];
                   failure = (\<lambda>res. res_json (JObject [(''error'', JString ''Failed to fetch PMTiles file'')])
                                        (res_status 500 res))
               in case upstream w of
                    FetchNetworkError \<Rightarrow>
                      (failure new_response, st', before @ [ConsoleError ''Proxy error:''])
                  | FetchResponse r \<Rightarrow>
                      if \<not> (200 \<le> up_status r \<and> up_status r \<le> 299)
                      then (failure new_response, st',
                            before @ [ConsoleError ''HTTP error response:'', ConsoleError ''Proxy error:''])
                      else
                        let res1 = res_set ''Content-Type'' ''application/octet-stream'' new_response;
                            res2 = res_set ''Access-Control-Allow-Origin'' ''*'' res1;
                            res3 = res_set ''Access-Control-Allow-Methods'' ''GET, HEAD, OPTIONS'' res2;
                            res4 = res_set ''Access-Control-Allow-Headers'' ''Range, Authorization'' res3;
                            res5 = (if truthy (up_headers r ''content-range'')
                                    then res_set ''Content-Range'' (template (up_headers r ''content-range'')) res4
                                    else res4);
                            res6 = (if truthy (up_headers r ''content-length'')
                                    then res_set ''Content-Length'' (template (up_headers r ''content-length'')) res5
                                    else res5);
                            res7 = (if truthy (up_headers r ''accept-ranges'')
                                    then res_set ''Accept-Ranges'' (template (up_headers r ''accept-ranges'')) res6
                                    else res6);
                            res8 = (if up_status r = 206 then res_status 206 res7
                                    else res_status 200 res7)
                        in (case up_body r of
                              None \<Rightarrow> (failure res8, st', before @ [ConsoleError ''Proxy error:''])
                            | Some (chunks, fails) \<Rightarrow>
                                (case pump chunks fails res8 of
                                   (res9, streaming) \<Rightarrow> (res9, st', before @ streaming))))"

section \<open>The configuration endpoint\<close>

text \<open>
  The handler of \<^verbatim>\<open>GET /api/config\<close>. A property whose value is \<^verbatim>\<open>undefined\<close>
  is left out of the JSON body.
\<close>

definition api_config ::
  "config \<Rightarrow> request \<Rightarrow> token_state \<Rightarrow> response \<times> token_state \<times> effect list" where
  "api_config cfg req st =
    (let filePath = query req ''filePath'';
         sourceLayer = query req ''sourceLayer'';
         ucUrl = ''https://'' @ template (DATABRICKS_HOST cfg) @ ''/api/2.0/fs/files'' @ template filePath;
         proxyUrl = ''/proxy/pmtiles?url='' @ encodeURIComponent ucUrl
     in (res_json
           (JObject
              ([(''pmtilesUrl'', JString proxyUrl)]
               @ (case sourceLayer of None \<Rightarrow> [] | Some l \<Rightarrow> [(''sourceLayer'', JString l)])
               @ [(''baseMapUrl'', JString ''https://tile.openstreetmap.org/{z}/{x}/{y}.png''),
                  (''zoom'', JNumber 7)]))
           new_response,
         st,
         [ConsoleLog ''Received parameters:'', ConsoleLog ''Generated URL:'']))"

section \<open>Reading a query string\<close>

text \<open>
  How the query string of a URL is read into \<^verbatim>\<open>req.query\<close> by the framework (it is
  not code of the server): the text between the first \<^verbatim>\<open>?\<close> and a \<^verbatim>\<open>#\<close> is cut at
  every \<^verbatim>\<open>&\<close>, each part at its first \<^verbatim>\<open>=\<close>, and names and values are decoded
  (\<^verbatim>\<open>+\<close> is a space; a value that does not decode is kept as it is).
  \<open>query_param name url\<close> is the parameter when it is a string: the name is given
  exactly once and never with brackets. It is \<open>None\<close> when the parameter is missing
  and when the name is repeated or bracketed, where the parser gives an array or an
  object.
\<close>

fun split_first :: "char \<Rightarrow> string \<Rightarrow> string \<times> string option" where
  "split_first sep [] = ([], None)"
| "split_first sep (c # cs) =
     (if c = sep then ([], Some cs)
      else (case split_first sep cs of (a, b) \<Rightarrow> (c # a, b)))"

fun split_all :: "char \<Rightarrow> string \<Rightarrow> string list" where
  "split_all sep [] = [] # []"
| "split_all sep (c # cs) =
     (if c = sep then [] # split_all sep cs
      else (case split_all sep cs of p # ps \<Rightarrow> (c # p) # ps | [] \<Rightarrow> [c] # []))"

definition query_decode :: "string \<Rightarrow> string" where
  "query_decode s =
     (let p = map (\<lambda>c. if c = CHR ''+'' then CHR '' '' else c) s
      in case decodeURIComponent p of Some d \<Rightarrow> d | None \<Rightarrow> p)"

definition parse_query :: "string \<Rightarrow> (string \<times> string) list" where
  "parse_query url =
     (case snd (split_first CHR ''?'' url) of
        None \<Rightarrow> []
      | Some q \<Rightarrow>
          map (\<lambda>part. case split_first CHR ''='' part of
                         (name, v) \<Rightarrow> (query_decode name,
                                         query_decode (case v of None \<Rightarrow> [] | Some x \<Rightarrow> x)))
            (filter (\<lambda>part. part \<noteq> []) (split_all CHR ''&'' (fst (split_first CHR ''#'' q)))))"

definition query_param :: "string \<Rightarrow> string \<Rightarrow> string option" where
  "query_param name url =
     (case filter (\<lambda>p. fst p = name \<or> take (length name + 1) (fst p) = name @ ''['')
             (parse_query url) of
        [(k, v)] \<Rightarrow> if k = name then Some v else None
      | _ \<Rightarrow> None)"

section \<open>Reading the effects\<close>

text \<open>The upstream requests among the effects of a handler, in order.\<close>

fun upstream_gets :: "effect list \<Rightarrow> (string \<times> (string \<times> string) list) list" where
  "upstream_gets [] = []"
| "upstream_gets (HttpGet url hdrs # es) = (url, hdrs) # upstream_gets es"
| "upstream_gets (_ # es) = upstream_gets es"

section \<open>Properties of the token manager\<close>

lemma fetch_granted:
  "granted cfg outcome = Some d \<Longrightarrow>
   fst (fetchDatabricksToken cfg outcome now st) = access_token d
   \<and> fst (snd (fetchDatabricksToken cfg outcome now st)) =
       st\<lparr>accessToken := access_token d,
          tokenExpiry := Some (case expires_in d of
                                 None \<Rightarrow> new_Date (now + 3600 * 1000)
                               | Some (Seconds n) \<Rightarrow>
                                   new_Date (now + (if n = 0 then 3600 else n) * 1000)
                               | Some NotANumber \<Rightarrow> InvalidDate)\<rparr>"
  by (auto simp: fetchDatabricksToken_def granted_def Let_def
           split: post_outcome.splits option.splits if_splits seconds.splits)

lemma fetch_not_granted:
  "granted cfg outcome = None \<Longrightarrow>
   fst (fetchDatabricksToken cfg outcome now st) = None
   \<and> fst (snd (fetchDatabricksToken cfg outcome now st)) = st"
  by (auto simp: fetchDatabricksToken_def granted_def Let_def
           split: post_outcome.splits option.splits if_splits)

lemma fetch_network_le_1:
  "length (filter is_network (snd (snd (fetchDatabricksToken cfg outcome now st)))) \<le> 1"
  by (simp add: fetchDatabricksToken_def Let_def split: post_outcome.splits option.splits)

lemma fetch_network_granted:
  "granted cfg outcome = Some d \<Longrightarrow>
   filter is_network (snd (snd (fetchDatabricksToken cfg outcome now st))) =
     [HttpPost (''https://'' @ template (DATABRICKS_HOST cfg) @ ''/oidc/v1/token'')
        (template (DATABRICKS_CLIENT_ID cfg) @ '':'' @ template (DATABRICKS_CLIENT_SECRET cfg))]"
  by (auto simp: fetchDatabricksToken_def granted_def Let_def
           split: post_outcome.splits option.splits if_splits)

lemma getValid_fresh:
  "truthy (accessToken st) \<Longrightarrow> tokenExpiry st = Some (ValidDate e) \<Longrightarrow> now + 300000 \<le> e \<Longrightarrow>
   getValidAccessToken cfg now outcome now' st = (accessToken st, st, [])"
  by (simp add: getValidAccessToken_def new_Date_def)

lemma getValid_invalid_date:
  "truthy (accessToken st) \<Longrightarrow> tokenExpiry st = Some InvalidDate \<Longrightarrow>
   getValidAccessToken cfg now outcome now' st = (accessToken st, st, [])"
  by (simp add: getValidAccessToken_def)

lemma getValid_stale:
  "\<not> truthy (accessToken st) \<or> tokenExpiry st = None
   \<or> (\<exists>e. tokenExpiry st = Some (ValidDate e) \<and> e < now + 300000
            \<and> \<bar>e - 300000\<bar> \<le> 8640000000000000) \<Longrightarrow>
   getValidAccessToken cfg now outcome now' st =
     (case fetchDatabricksToken cfg outcome now' st of
        (r, st', es) \<Rightarrow> (accessToken st', st',
           ConsoleLog ''Token expired or expiring soon, fetching new token...'' # es))"
  by (auto simp: getValidAccessToken_def new_Date_def)

lemma run_fetches_token:
  "accessToken (run_fetches cfg st outs) =
    (if grants cfg outs = [] then accessToken st else access_token (last (grants cfg outs)))"
proof (induction outs arbitrary: st)
  case Nil
  show ?case by (simp add: grants_def)
next
  case (Cons a outs)
  obtain outcome now where a: "a = (outcome, now)" by (cases a)
  show ?case
  proof (cases "granted cfg outcome")
    case None
    then show ?thesis
      using fetch_not_granted [of cfg outcome now st]
      by (simp add: a Cons.IH grants_def)
  next
    case (Some d)
    then show ?thesis
      using fetch_granted [of cfg outcome d now st]
      by (simp add: a Cons.IH grants_def)
  qed
qed

lemma run_fetches_snoc:
  "run_fetches cfg st (outs @ [(outcome, now)]) =
     fst (snd (fetchDatabricksToken cfg outcome now (run_fetches cfg st outs)))"
  by (induction outs arbitrary: st) auto

text \<open>
  The handlers change the token state only through \<^verbatim>\<open>fetchDatabricksToken\<close>: a
  call of \<^verbatim>\<open>getValidAccessToken\<close> leaves it as it was or as one fetch leaves it, the
  proxy handler leaves it as it was or as its call of \<^verbatim>\<open>getValidAccessToken\<close> leaves
  it, and the configuration handler does not touch it.
\<close>

lemma getValidAccessToken_state:
  "fst (snd (getValidAccessToken cfg now outcome now' st)) = st
 \<or> fst (snd (getValidAccessToken cfg now outcome now' st)) = run_fetches cfg st [(outcome, now')]"
  by (cases "fetchDatabricksToken cfg outcome now' st") (simp add: getValidAccessToken_def)

lemma proxy_pmtiles_state:
  "fst (snd (proxy_pmtiles cfg w req st)) = st
 \<or> fst (snd (proxy_pmtiles cfg w req st)) =
     fst (snd (getValidAccessToken cfg (check_time w) (token_outcome w) (token_time w) st))"
proof -
  obtain authToken st' tes where
    tok: "getValidAccessToken cfg (check_time w) (token_outcome w) (token_time w) st = (authToken, st', tes)"
    by (cases "getValidAccessToken cfg (check_time w) (token_outcome w) (token_time w) st")
  consider (nourl) "\<not> truthy (query req ''url'')"
    | (probe) "truthy (query req ''url'')" "isTileJsonRequest req"
    | (fetch) "truthy (query req ''url'')" "\<not> isTileJsonRequest req"
    by blast
  then show ?thesis
  proof cases
    case nourl
    then show ?thesis by (simp add: proxy_pmtiles_def)
  next
    case probe
    then show ?thesis by (simp add: proxy_pmtiles_def Let_def)
  next
    case fetch
    have "fst (snd (proxy_pmtiles cfg w req st)) = st'"
    proof (cases "upstream w")
      case FetchNetworkError
      show ?thesis
        using fetch by (simp add: proxy_pmtiles_def Let_def tok FetchNetworkError)
    next
      case (FetchResponse r)
      show ?thesis
      proof (cases "200 \<le> up_status r \<and> up_status r \<le> 299")
        case False
        show ?thesis
          using fetch False by (simp add: proxy_pmtiles_def Let_def tok FetchResponse)
      next
        case True
        show ?thesis
        proof (cases "up_body r")
          case None
          show ?thesis
            using fetch True by (simp add: proxy_pmtiles_def Let_def tok FetchResponse None)
        next
          case (Some b)
          obtain chunks fails where b: "b = (chunks, fails)" by (cases b)
          show ?thesis
            using fetch True
            by (simp add: proxy_pmtiles_def Let_def tok FetchResponse Some b split_def)
        qed
      qed
    qed
    then show ?thesis by (simp add: tok)
  qed
qed

lemma api_config_state: "fst (snd (api_config cfg req st)) = st"
  by (simp add: api_config_def Let_def)

text \<open>
  Claim C1, as amended. A call of \<^verbatim>\<open>getValidAccessToken()\<close> at time \<open>now\<close>:
  if the cached token is not empty and its expiry is a valid date at least 5 minutes
  after \<open>now\<close> (exactly 5 minutes included), the cached token is returned, the state
  is unchanged and there is no effect at all, so no fetch. If no token or an empty one
  is cached, or no expiry, or the expiry is a valid date less than 5 minutes after
  \<open>now\<close> (5 minutes before it being still a date), the call is one run of
  \<^verbatim>\<open>fetchDatabricksToken()\<close> on the state, with at most one network request, and
  returns the token that is cached after it; when that fetch is not granted the state
  is the one before, so the token returned is the previous one, expired or absent as it
  was. In particular, when a first call has to fetch and is granted a token that is
  not empty, with \<^verbatim>\<open>expires_in\<close> missing, 0 (both mean 3600 seconds) or at least
  360 seconds, a second call within the same minute returns the same token without
  any effect, and the two calls together make exactly one network request, the token
  request of the first. What a call does when the cached expiry is the Invalid Date is
  not part of the statement.
\<close>

theorem getValidAccessToken_reuse_or_one_fetch:
  "(truthy (accessToken st)
      \<and> (\<exists>e. tokenExpiry st = Some (ValidDate e) \<and> now + 5 * 60 * 1000 \<le> e)
      \<longrightarrow> getValidAccessToken cfg now outcome now' st = (accessToken st, st, []))
 \<and> (\<not> truthy (accessToken st) \<or> tokenExpiry st = None
      \<or> (\<exists>e. tokenExpiry st = Some (ValidDate e) \<and> e < now + 5 * 60 * 1000
               \<and> \<bar>e - 5 * 60 * 1000\<bar> \<le> 8640000000000000)
      \<longrightarrow> (\<exists>r st' es. fetchDatabricksToken cfg outcome now' st = (r, st', es)
            \<and> getValidAccessToken cfg now outcome now' st =
                (accessToken st', st',
                 ConsoleLog ''Token expired or expiring soon, fetching new token...'' # es)
            \<and> length (filter is_network es) \<le> 1
            \<and> (granted cfg outcome = None \<longrightarrow> st' = st)))
 \<and> ((\<not> truthy (accessToken st) \<or> tokenExpiry st = None
       \<or> (\<exists>e. tokenExpiry st = Some (ValidDate e) \<and> e < now + 5 * 60 * 1000
                \<and> \<bar>e - 5 * 60 * 1000\<bar> \<le> 8640000000000000))
      \<and> granted cfg outcome = Some d \<and> truthy (access_token d)
      \<and> (case expires_in d of
            None \<Rightarrow> True
          | Some (Seconds n) \<Rightarrow> n = 0 \<or> 360 \<le> n
          | Some NotANumber \<Rightarrow> False)
      \<and> now \<le> now' \<and> now' \<le> now2 \<and> now2 \<le> now + 60 * 1000
      \<longrightarrow> (\<exists>st1 es1 es2.
             getValidAccessToken cfg now outcome now' st = (access_token d, st1, es1)
           \<and> getValidAccessToken cfg now2 outcome2 now2' st1 = (access_token d, st1, es2)
           \<and> filter is_network (es1 @ es2) =
               [HttpPost (''https://'' @ template (DATABRICKS_HOST cfg) @ ''/oidc/v1/token'')
                  (template (DATABRICKS_CLIENT_ID cfg) @ '':'' @ template (DATABRICKS_CLIENT_SECRET cfg))]))"
proof (intro conjI impI)
  assume "truthy (accessToken st)
      \<and> (\<exists>e. tokenExpiry st = Some (ValidDate e) \<and> now + 5 * 60 * 1000 \<le> e)"
  then show "getValidAccessToken cfg now outcome now' st = (accessToken st, st, [])"
    by (auto simp: getValid_fresh)
next
  assume stale: "\<not> truthy (accessToken st) \<or> tokenExpiry st = None
      \<or> (\<exists>e. tokenExpiry st = Some (ValidDate e) \<and> e < now + 5 * 60 * 1000
               \<and> \<bar>e - 5 * 60 * 1000\<bar> \<le> 8640000000000000)"
  obtain r st' es where f: "fetchDatabricksToken cfg outcome now' st = (r, st', es)"
    by (cases "fetchDatabricksToken cfg outcome now' st") auto
  have g: "getValidAccessToken cfg now outcome now' st =
      (accessToken st', st', ConsoleLog ''Token expired or expiring soon, fetching new token...'' # es)"
    using stale f getValid_stale [of st now cfg outcome now'] by simp
  have n: "length (filter is_network es) \<le> 1"
    using fetch_network_le_1 [of cfg outcome now' st] f by simp
  have k: "granted cfg outcome = None \<longrightarrow> st' = st"
    using f fetch_not_granted [of cfg outcome now' st] by auto
  show "\<exists>r st' es. fetchDatabricksToken cfg outcome now' st = (r, st', es)
            \<and> getValidAccessToken cfg now outcome now' st =
                (accessToken st', st',
                 ConsoleLog ''Token expired or expiring soon, fetching new token...'' # es)
            \<and> length (filter is_network es) \<le> 1
            \<and> (granted cfg outcome = None \<longrightarrow> st' = st)"
    by (intro exI [of _ r] exI [of _ st'] exI [of _ es] conjI f g n k)
next
  assume a: "(\<not> truthy (accessToken st) \<or> tokenExpiry st = None
       \<or> (\<exists>e. tokenExpiry st = Some (ValidDate e) \<and> e < now + 5 * 60 * 1000
                \<and> \<bar>e - 5 * 60 * 1000\<bar> \<le> 8640000000000000))
      \<and> granted cfg outcome = Some d \<and> truthy (access_token d)
      \<and> (case expires_in d of
            None \<Rightarrow> True
          | Some (Seconds n) \<Rightarrow> n = 0 \<or> 360 \<le> n
          | Some NotANumber \<Rightarrow> False)
      \<and> now \<le> now' \<and> now' \<le> now2 \<and> now2 \<le> now + 60 * 1000"
  define life where "life = (case expires_in d of
      Some (Seconds n) \<Rightarrow> if n = 0 then 3600 else n | _ \<Rightarrow> (3600::int))"
  have life: "360 \<le> life"
    using a by (auto simp: life_def split: option.splits seconds.splits)
  define st1 where "st1 = st\<lparr>accessToken := access_token d,
      tokenExpiry := Some (new_Date (now' + life * 1000))\<rparr>"
  define es where "es = snd (snd (fetchDatabricksToken cfg outcome now' st))"
  have stored: "fst (snd (fetchDatabricksToken cfg outcome now' st)) = st1"
    using a fetch_granted [of cfg outcome d now' st]
    by (auto simp: st1_def life_def split: option.splits seconds.splits)
  have f: "fetchDatabricksToken cfg outcome now' st = (access_token d, st1, es)"
    using a stored fetch_granted [of cfg outcome d now' st]
    by (cases "fetchDatabricksToken cfg outcome now' st") (simp add: es_def)
  have c1: "getValidAccessToken cfg now outcome now' st =
      (access_token d, st1, ConsoleLog ''Token expired or expiring soon, fetching new token...'' # es)"
    using a f getValid_stale [of st now cfg outcome now'] by (simp add: st1_def)
  have c2: "getValidAccessToken cfg now2 outcome2 now2' st1 = (access_token d, st1, [])"
  proof (cases "new_Date (now' + life * 1000)")
    case InvalidDate
    then show ?thesis
      using a getValid_invalid_date [of st1 cfg now2 outcome2 now2'] by (simp add: st1_def)
  next
    case (ValidDate e)
    then have "e = now' + life * 1000"
      by (simp add: new_Date_def split: if_splits)
    then have "now2 + 300000 \<le> e"
      using a life by simp
    then show ?thesis
      using a ValidDate getValid_fresh [of st1 e now2 cfg outcome2 now2'] by (simp add: st1_def)
  qed
  have n: "filter is_network es =
      [HttpPost (''https://'' @ template (DATABRICKS_HOST cfg) @ ''/oidc/v1/token'')
         (template (DATABRICKS_CLIENT_ID cfg) @ '':'' @ template (DATABRICKS_CLIENT_SECRET cfg))]"
    using a fetch_network_granted [of cfg outcome d now' st] by (simp add: es_def)
  show "\<exists>st1 es1 es2.
             getValidAccessToken cfg now outcome now' st = (access_token d, st1, es1)
           \<and> getValidAccessToken cfg now2 outcome2 now2' st1 = (access_token d, st1, es2)
           \<and> filter is_network (es1 @ es2) =
               [HttpPost (''https://'' @ template (DATABRICKS_HOST cfg) @ ''/oidc/v1/token'')
                  (template (DATABRICKS_CLIENT_ID cfg) @ '':'' @ template (DATABRICKS_CLIENT_SECRET cfg))]"
    using c1 c2 n
    by (intro exI [of _ st1]
          exI [of _ "ConsoleLog ''Token expired or expiring soon, fetching new token...'' # es"]
          exI [of _ "[]"]) simp
qed

text \<open>
  The theorem at a token that expires in exactly 5 minutes (reused), and at two calls
  one minute apart that start with no token.
\<close>

theorem getValidAccessToken_reuse_or_one_fetch_witness:
  "getValidAccessToken
     \<lparr>DATABRICKS_CLIENT_ID = Some ''id'', DATABRICKS_CLIENT_SECRET = Some ''secret'',
      DATABRICKS_HOST = Some ''host.example''\<rparr>
     0 PostNetworkError 0 \<lparr>accessToken = Some ''old'', tokenExpiry = Some (ValidDate 300000)\<rparr>
   = (Some ''old'', \<lparr>accessToken = Some ''old'', tokenExpiry = Some (ValidDate 300000)\<rparr>, [])
 \<and> (\<exists>st1 es1 es2.
       getValidAccessToken
         \<lparr>DATABRICKS_CLIENT_ID = Some ''id'', DATABRICKS_CLIENT_SECRET = Some ''secret'',
          DATABRICKS_HOST = Some ''host.example''\<rparr>
         1000 (PostResponse 200 (Some \<lparr>access_token = Some ''new'', expires_in = None\<rparr>)) 1200
         \<lparr>accessToken = None, tokenExpiry = None\<rparr>
       = (Some ''new'', st1, es1)
     \<and> getValidAccessToken
         \<lparr>DATABRICKS_CLIENT_ID = Some ''id'', DATABRICKS_CLIENT_SECRET = Some ''secret'',
          DATABRICKS_HOST = Some ''host.example''\<rparr>
         61000 PostNetworkError 61000 st1
       = (Some ''new'', st1, es2)
     \<and> filter is_network (es1 @ es2) = [HttpPost ''https://host.example/oidc/v1/token'' ''id:secret''])"
  using
    getValidAccessToken_reuse_or_one_fetch
      [of "\<lparr>accessToken = Some ''old'', tokenExpiry = Some (ValidDate 300000)\<rparr>" 0
          "\<lparr>DATABRICKS_CLIENT_ID = Some ''id'', DATABRICKS_CLIENT_SECRET = Some ''secret'',
            DATABRICKS_HOST = Some ''host.example''\<rparr>"
          PostNetworkError 0]
    getValidAccessToken_reuse_or_one_fetch
      [of "\<lparr>accessToken = None, tokenExpiry = None\<rparr>" 1000
          "\<lparr>DATABRICKS_CLIENT_ID = Some ''id'', DATABRICKS_CLIENT_SECRET = Some ''secret'',
            DATABRICKS_HOST = Some ''host.example''\<rparr>"
          "PostResponse 200 (Some \<lparr>access_token = Some ''new'', expires_in = None\<rparr>)" 1200
          "\<lparr>access_token = Some ''new'', expires_in = None\<rparr>" 61000 PostNetworkError 61000]
  by (simp add: truthy_def template_def granted_def)

text \<open>
  Claim C1 as it is stated fails in four ways, one for each change of the amended
  claim. First, the boundary: at \<open>now = 0\<close> with the expiry at 300000 ms the expiry is
  not more than 5 minutes ahead, yet the call returns the cached token with no effect.
  Second, the empty token: with the empty string cached and the expiry an hour ahead a
  token is cached and its expiry is more than 5 minutes ahead, yet the call fetches.
  Third, the short-lived token: a first call at 1000 ms is granted a token with
  \<^verbatim>\<open>expires_in\<close> 60, and a second call one second later fetches again, so two calls
  within the same minute after a successful fetch make two network requests. Fourth,
  the Invalid Date: a fetch granted with \<^verbatim>\<open>expires_in\<close> -9000000000000000 stores
  the Invalid Date, whose expiry is not more than 5 minutes ahead, and every later
  call returns the cached token with no effect.
\<close>

theorem getValidAccessToken_as_stated_counterexample:
  "\<not> (5 * 60 * 1000 < (300000::int) - 0)
 \<and> getValidAccessToken
     \<lparr>DATABRICKS_CLIENT_ID = Some ''id'', DATABRICKS_CLIENT_SECRET = Some ''secret'',
      DATABRICKS_HOST = Some ''host.example''\<rparr>
     0 (PostResponse 200 (Some \<lparr>access_token = Some ''new'', expires_in = None\<rparr>)) 1
     \<lparr>accessToken = Some ''old'', tokenExpiry = Some (ValidDate 300000)\<rparr>
   = (Some ''old'', \<lparr>accessToken = Some ''old'', tokenExpiry = Some (ValidDate 300000)\<rparr>, [])
 \<and> (5 * 60 * 1000 < (3600000::int) - 0)
 \<and> getValidAccessToken
     \<lparr>DATABRICKS_CLIENT_ID = Some ''id'', DATABRICKS_CLIENT_SECRET = Some ''secret'',
      DATABRICKS_HOST = Some ''host.example''\<rparr>
     0 (PostResponse 200 (Some \<lparr>access_token = Some ''new'', expires_in = None\<rparr>)) 1
     \<lparr>accessToken = Some '''', tokenExpiry = Some (ValidDate 3600000)\<rparr>
   = (Some ''new'', \<lparr>accessToken = Some ''new'', tokenExpiry = Some (ValidDate 3600001)\<rparr>,
      [ConsoleLog ''Token expired or expiring soon, fetching new token...'',
       HttpPost ''https://host.example/oidc/v1/token'' ''id:secret'',
       ConsoleLog ''Access Token fetched successfully''])
 \<and> getValidAccessToken
     \<lparr>DATABRICKS_CLIENT_ID = Some ''id'', DATABRICKS_CLIENT_SECRET = Some ''secret'',
      DATABRICKS_HOST = Some ''host.example''\<rparr>
     1000 (PostResponse 200 (Some \<lparr>access_token = Some ''first'', expires_in = Some (Seconds 60)\<rparr>)) 1200
     \<lparr>accessToken = None, tokenExpiry = None\<rparr>
   = (Some ''first'', \<lparr>accessToken = Some ''first'', tokenExpiry = Some (ValidDate 61200)\<rparr>,
      [ConsoleLog ''Token expired or expiring soon, fetching new token...'',
       HttpPost ''https://host.example/oidc/v1/token'' ''id:secret'',
       ConsoleLog ''Access Token fetched successfully''])
 \<and> getValidAccessToken
     \<lparr>DATABRICKS_CLIENT_ID = Some ''id'', DATABRICKS_CLIENT_SECRET = Some ''secret'',
      DATABRICKS_HOST = Some ''host.example''\<rparr>
     2200 (PostResponse 200 (Some \<lparr>access_token = Some ''second'', expires_in = Some (Seconds 60)\<rparr>)) 2400
     \<lparr>accessToken = Some ''first'', tokenExpiry = Some (ValidDate 61200)\<rparr>
   = (Some ''second'', \<lparr>accessToken = Some ''second'', tokenExpiry = Some (ValidDate 62400)\<rparr>,
      [ConsoleLog ''Token expired or expiring soon, fetching new token...'',
       HttpPost ''https://host.example/oidc/v1/token'' ''id:secret'',
       ConsoleLog ''Access Token fetched successfully''])
 \<and> fst (snd (fetchDatabricksToken
     \<lparr>DATABRICKS_CLIENT_ID = Some ''id'', DATABRICKS_CLIENT_SECRET = Some ''secret'',
      DATABRICKS_HOST = Some ''host.example''\<rparr>
     (PostResponse 200
        (Some \<lparr>access_token = Some ''tok'', expires_in = Some (Seconds (- 9000000000000000))\<rparr>))
     1000 \<lparr>accessToken = None, tokenExpiry = None\<rparr>))
   = \<lparr>accessToken = Some ''tok'', tokenExpiry = Some InvalidDate\<rparr>
 \<and> getValidAccessToken
     \<lparr>DATABRICKS_CLIENT_ID = Some ''id'', DATABRICKS_CLIENT_SECRET = Some ''secret'',
      DATABRICKS_HOST = Some ''host.example''\<rparr>
     2000 (PostResponse 200 (Some \<lparr>access_token = Some ''new'', expires_in = None\<rparr>)) 2200
     \<lparr>accessToken = Some ''tok'', tokenExpiry = Some InvalidDate\<rparr>
   = (Some ''tok'', \<lparr>accessToken = Some ''tok'', tokenExpiry = Some InvalidDate\<rparr>, [])"
  by (simp add: getValidAccessToken_def fetchDatabricksToken_def truthy_def template_def
        new_Date_def)

text \<open>
  Claim C2, as amended. After any run of token fetches from process start, in
  whatever order their answers arrive, the cached token is absent if and only if no
  fetch of the run was granted or the body of the last granted one carried no
  \<^verbatim>\<open>access_token\<close>; a fetch that is not granted leaves the whole token state as it
  was, so a failure does not make a cached token absent.
\<close>

theorem accessToken_absent_iff_no_grant:
  "(accessToken (run_fetches cfg initial_state outs) = None
      \<longleftrightarrow> grants cfg outs = [] \<or> access_token (last (grants cfg outs)) = None)
 \<and> (granted cfg outcome = None
      \<longrightarrow> run_fetches cfg initial_state (outs @ [(outcome, now)]) = run_fetches cfg initial_state outs)"
proof
  show "accessToken (run_fetches cfg initial_state outs) = None
      \<longleftrightarrow> grants cfg outs = [] \<or> access_token (last (grants cfg outs)) = None"
    by (simp add: run_fetches_token initial_state_def)
next
  show "granted cfg outcome = None
      \<longrightarrow> run_fetches cfg initial_state (outs @ [(outcome, now)]) = run_fetches cfg initial_state outs"
    using fetch_not_granted [of cfg outcome now "run_fetches cfg initial_state outs"]
    by (simp add: run_fetches_snoc)
qed

text \<open>The theorem at a granted fetch followed by a fetch answered with status 503.\<close>

theorem accessToken_absent_iff_no_grant_witness:
  "granted
     \<lparr>DATABRICKS_CLIENT_ID = Some ''id'', DATABRICKS_CLIENT_SECRET = Some ''secret'',
      DATABRICKS_HOST = Some ''host.example''\<rparr> (PostResponse 503 None) = None
 \<and> run_fetches
     \<lparr>DATABRICKS_CLIENT_ID = Some ''id'', DATABRICKS_CLIENT_SECRET = Some ''secret'',
      DATABRICKS_HOST = Some ''host.example''\<rparr> initial_state
     ([(PostResponse 200 (Some \<lparr>access_token = Some ''tok'', expires_in = Some (Seconds 600)\<rparr>), 1000)]
      @ [(PostResponse 503 None, 2000)])
   = \<lparr>accessToken = Some ''tok'', tokenExpiry = Some (ValidDate 601000)\<rparr>
 \<and> grants
     \<lparr>DATABRICKS_CLIENT_ID = Some ''id'', DATABRICKS_CLIENT_SECRET = Some ''secret'',
      DATABRICKS_HOST = Some ''host.example''\<rparr>
     [(PostResponse 200 (Some \<lparr>access_token = Some ''tok'', expires_in = Some (Seconds 600)\<rparr>), 1000)]
   = [\<lparr>access_token = Some ''tok'', expires_in = Some (Seconds 600)\<rparr>]"
  using accessToken_absent_iff_no_grant
    [of "\<lparr>DATABRICKS_CLIENT_ID = Some ''id'', DATABRICKS_CLIENT_SECRET = Some ''secret'',
          DATABRICKS_HOST = Some ''host.example''\<rparr>"
        "[(PostResponse 200 (Some \<lparr>access_token = Some ''tok'', expires_in = Some (Seconds 600)\<rparr>), 1000)]"
        "PostResponse 503 None" 2000]
  by (simp add: granted_def grants_def truthy_def template_def initial_state_def
        fetchDatabricksToken_def new_Date_def)

text \<open>
  Claim C2 as it is stated has the token absent after a fetch failure until a later
  successful fetch. After a granted fetch and then a network error, no successful fetch
  has occurred since the last failure, and the token is still cached.
\<close>

theorem accessToken_present_after_failure_counterexample:
  "granted
     \<lparr>DATABRICKS_CLIENT_ID = Some ''id'', DATABRICKS_CLIENT_SECRET = Some ''secret'',
      DATABRICKS_HOST = Some ''host.example''\<rparr> PostNetworkError = None
 \<and> fst (fetchDatabricksToken
     \<lparr>DATABRICKS_CLIENT_ID = Some ''id'', DATABRICKS_CLIENT_SECRET = Some ''secret'',
      DATABRICKS_HOST = Some ''host.example''\<rparr> PostNetworkError 2000
     \<lparr>accessToken = Some ''tok'', tokenExpiry = Some (ValidDate 3601000)\<rparr>) = None
 \<and> accessToken (run_fetches
     \<lparr>DATABRICKS_CLIENT_ID = Some ''id'', DATABRICKS_CLIENT_SECRET = Some ''secret'',
      DATABRICKS_HOST = Some ''host.example''\<rparr> initial_state
     [(PostResponse 200 (Some \<lparr>access_token = Some ''tok'', expires_in = None\<rparr>), 1000),
      (PostNetworkError, 2000)])
   = Some ''tok''"
  by (simp add: granted_def truthy_def template_def initial_state_def fetchDatabricksToken_def)

text \<open>
  Claim C3. A run of \<^verbatim>\<open>fetchDatabricksToken()\<close> that fails, because a
  configuration variable is missing or empty, because of a network error, because the
  status is outside 200..299, or because the body is \<^verbatim>\<open>null\<close>, returns no token
  and leaves the token state exactly as it was; it makes at most one network request.
\<close>

theorem fetchDatabricksToken_failure_keeps_state:
  assumes "\<not> truthy (DATABRICKS_CLIENT_ID cfg) \<or> \<not> truthy (DATABRICKS_CLIENT_SECRET cfg)
           \<or> \<not> truthy (DATABRICKS_HOST cfg)
           \<or> outcome = PostNetworkError
           \<or> (\<exists>status data. outcome = PostResponse status data \<and> (status < 200 \<or> 300 \<le> status))
           \<or> (\<exists>status. outcome = PostResponse status None)"
  shows "fst (fetchDatabricksToken cfg outcome now st) = None
       \<and> fst (snd (fetchDatabricksToken cfg outcome now st)) = st
       \<and> length (filter is_network (snd (snd (fetchDatabricksToken cfg outcome now st)))) \<le> 1"
proof -
  from assms have "granted cfg outcome = None"
    by (auto simp: granted_def)
  then show ?thesis
    using fetch_not_granted [of cfg outcome now st] fetch_network_le_1 [of cfg outcome now st]
    by simp
qed

text \<open>The theorem at an answer with status 401, with an expired token cached.\<close>

theorem fetchDatabricksToken_failure_keeps_state_witness:
  "((401::nat) < 200 \<or> 300 \<le> (401::nat))
 \<and> fst (fetchDatabricksToken
     \<lparr>DATABRICKS_CLIENT_ID = Some ''id'', DATABRICKS_CLIENT_SECRET = Some ''secret'',
      DATABRICKS_HOST = Some ''host.example''\<rparr>
     (PostResponse 401 (Some \<lparr>access_token = None, expires_in = None\<rparr>)) 5000
     \<lparr>accessToken = Some ''old'', tokenExpiry = Some (ValidDate 4000)\<rparr>) = None
 \<and> fst (snd (fetchDatabricksToken
     \<lparr>DATABRICKS_CLIENT_ID = Some ''id'', DATABRICKS_CLIENT_SECRET = Some ''secret'',
      DATABRICKS_HOST = Some ''host.example''\<rparr>
     (PostResponse 401 (Some \<lparr>access_token = None, expires_in = None\<rparr>)) 5000
     \<lparr>accessToken = Some ''old'', tokenExpiry = Some (ValidDate 4000)\<rparr>))
   = \<lparr>accessToken = Some ''old'', tokenExpiry = Some (ValidDate 4000)\<rparr>"
  using fetchDatabricksToken_failure_keeps_state
    [of "\<lparr>DATABRICKS_CLIENT_ID = Some ''id'', DATABRICKS_CLIENT_SECRET = Some ''secret'',
          DATABRICKS_HOST = Some ''host.example''\<rparr>"
        "PostResponse 401 (Some \<lparr>access_token = None, expires_in = None\<rparr>)" 5000
        "\<lparr>accessToken = Some ''old'', tokenExpiry = Some (ValidDate 4000)\<rparr>"]
  by simp

section \<open>Properties of the proxy endpoint\<close>

lemma upstream_gets_append:
  "upstream_gets (a @ b) = upstream_gets a @ upstream_gets b"
  by (induction a rule: upstream_gets.induct) auto

lemma upstream_gets_fetch:
  "upstream_gets (snd (snd (fetchDatabricksToken cfg outcome now st))) = []"
  by (simp add: fetchDatabricksToken_def Let_def split: post_outcome.splits option.splits)

lemma upstream_gets_getValid:
  "upstream_gets (snd (snd (getValidAccessToken cfg now outcome now' st))) = []"
  using upstream_gets_fetch [of cfg outcome now' st]
  by (cases "fetchDatabricksToken cfg outcome now' st") (simp add: getValidAccessToken_def)

lemma pump_no_gets: "upstream_gets (snd (pump chunks fails res)) = []"
  by (simp add: pump_def Let_def)

lemma proxy_pmtiles_gets:
  assumes url: "truthy (query req ''url'')"
      and shape: "\<not> isTileJsonRequest req"
      and tok: "getValidAccessToken cfg (check_time w) (token_outcome w) (token_time w) st = (authToken, st', tes)"
  shows "upstream_gets (snd (snd (proxy_pmtiles cfg w req st))) =
    [(case decodeURIComponent (template (query req ''url'')) of
        None \<Rightarrow> template (query req ''url'') | Some d \<Rightarrow> d,
      [(''User-Agent'', ''PMTiles-Viewer/1.0'')]
      @ (if truthy authToken then [(''Authorization'', ''Bearer '' @ template authToken)] else [])
      @ (if truthy (headers req ''range'') then [(''Range'', template (headers req ''range''))] else []))]"
proof -
  have g: "upstream_gets tes = []"
    using upstream_gets_getValid [of cfg "check_time w" "token_outcome w" "token_time w" st] tok
    by simp
  show ?thesis
  proof (cases "upstream w")
    case FetchNetworkError
    show ?thesis
      using url shape
      by (simp add: proxy_pmtiles_def Let_def tok FetchNetworkError upstream_gets_append g
               split: option.splits)
  next
    case (FetchResponse r)
    show ?thesis
    proof (cases "200 \<le> up_status r \<and> up_status r \<le> 299")
      case False
      show ?thesis
        using url shape False
        by (simp add: proxy_pmtiles_def Let_def tok FetchResponse upstream_gets_append g
                 split: option.splits)
    next
      case True
      show ?thesis
      proof (cases "up_body r")
        case None
        show ?thesis
          using url shape True
          by (simp add: proxy_pmtiles_def Let_def tok FetchResponse None upstream_gets_append g
                   split: option.splits)
      next
        case (Some b)
        obtain chunks fails where b: "b = (chunks, fails)" by (cases b)
        show ?thesis
          using url shape True
          by (simp add: proxy_pmtiles_def Let_def tok FetchResponse Some b upstream_gets_append g
                   pump_no_gets split_def split: option.splits)
      qed
    qed
  qed
qed


lemma foldl_write_fields:
  "header (foldl (\<lambda>r chunk. res_write chunk r) res chunks) = header res
 \<and> statusCode (foldl (\<lambda>r chunk. res_write chunk r) res chunks) = statusCode res
 \<and> json_body (foldl (\<lambda>r chunk. res_write chunk r) res chunks) = json_body res
 \<and> written (foldl (\<lambda>r chunk. res_write chunk r) res chunks) = written res @ chunks"
  by (induction chunks arbitrary: res) (simp_all add: res_write_def)

lemma pump_fields:
  "header (fst (pump chunks fails res)) = header res
 \<and> statusCode (fst (pump chunks fails res)) = (if fails then 500 else statusCode res)
 \<and> json_body (fst (pump chunks fails res)) = json_body res
 \<and> written (fst (pump chunks fails res)) = written res @ chunks
 \<and> ended (fst (pump chunks fails res))"
  using foldl_write_fields [of res chunks]
  by (simp add: pump_def Let_def res_end_def res_status_def)

lemma proxy_pmtiles_streamed:
  assumes url: "truthy (query req ''url'')"
      and shape: "\<not> isTileJsonRequest req"
      and up: "upstream w = FetchResponse r"
      and ok: "200 \<le> up_status r \<and> up_status r \<le> 299"
      and body: "up_body r = Some (chunks, fails)"
  shows "fst (proxy_pmtiles cfg w req st) =
    fst (pump chunks fails
      (res_status (if up_status r = 206 then 206 else 200)
        ((if truthy (up_headers r ''accept-ranges'')
          then res_set ''Accept-Ranges'' (template (up_headers r ''accept-ranges'')) else id)
        ((if truthy (up_headers r ''content-length'')
          then res_set ''Content-Length'' (template (up_headers r ''content-length'')) else id)
        ((if truthy (up_headers r ''content-range'')
          then res_set ''Content-Range'' (template (up_headers r ''content-range'')) else id)
        (res_set ''Access-Control-Allow-Headers'' ''Range, Authorization''
        (res_set ''Access-Control-Allow-Methods'' ''GET, HEAD, OPTIONS''
        (res_set ''Access-Control-Allow-Origin'' ''*''
        (res_set ''Content-Type'' ''application/octet-stream'' new_response)))))))))"
proof -
  obtain authToken st' tes where
    tok: "getValidAccessToken cfg (check_time w) (token_outcome w) (token_time w) st = (authToken, st', tes)"
    by (cases "getValidAccessToken cfg (check_time w) (token_outcome w) (token_time w) st")
  show ?thesis
    using url shape ok
    by (simp add: proxy_pmtiles_def Let_def tok up body split_def)
qed

lemma truthy_template: "truthy v \<Longrightarrow> Some (template v) = v"
  by (cases v) (simp_all add: truthy_def template_def)

lemma res_fields:
  "header (res_set name v res) = (header res)(name \<mapsto> v)"
  "header (res_status n res) = header res"
  "statusCode (res_set name v res) = statusCode res"
  "statusCode (res_status n res) = n"
  "json_body (res_set name v res) = json_body res"
  "json_body (res_status n res) = json_body res"
  "written (res_set name v res) = written res"
  "written (res_status n res) = written res"
  by (simp_all add: res_set_def res_status_def)

lemma new_response_fields:
  "header new_response = Map.empty"
  "statusCode new_response = 200"
  "json_body new_response = None"
  "written new_response = []"
  by (simp_all add: new_response_def)
lemma decode_example:
  "decodeURIComponent ''https%3A%2F%2Fh.example%2Ff.pmtiles'' = Some ''https://h.example/f.pmtiles''"
  by code_simp

lemma decode_plain_example:
  "decodeURIComponent ''https://h.example/f.pmtiles'' = Some ''https://h.example/f.pmtiles''"
  by code_simp

lemma includes_example: "includes_str ''application/json'' ''application/json''"
  by code_simp

lemma decode_query_example:
  "decodeURIComponent ''https://h.example/f?a=1&b=2'' = Some ''https://h.example/f?a=1&b=2''"
  by code_simp

lemma query_param_example:
  "query_param ''url'' ''http://localhost:3000/proxy/pmtiles?url=https://h.example/f?a=1&b=2''
     = Some ''https://h.example/f?a=1''"
  by code_simp

lemma query_param_encoded_example:
  "query_param ''url''
     (''http://localhost:3000/proxy/pmtiles?url='' @ encodeURIComponent ''https://h.example/f?a=1&b=2'')
     = Some ''https://h.example/f?a=1&b=2''"
  by code_simp

lemma proxy_pmtiles_probe_body:
  assumes "isTileJsonRequest req" and "query req ''url'' = Some u" and "u \<noteq> []"
  shows "json_body (fst (proxy_pmtiles cfg w req st)) =
    Some (JObject
      [(''type'', JString ''vector''),
       (''tiles'', JArray [JString (protocol req @ ''://'' @ template (headers req ''host'')
          @ ''/proxy/pmtiles?url='' @ (case decodeURIComponent u of Some d \<Rightarrow> d | None \<Rightarrow> u))]),
       (''minzoom'', JNumber 0),
       (''maxzoom'', JNumber 14)])"
  using assms
  by (simp add: proxy_pmtiles_def Let_def res_json_def new_response_def truthy_def template_def)

text \<open>
  Claim C4, as amended. For every request to the proxy with a \<^verbatim>\<open>url\<close> parameter and
  a \<^verbatim>\<open>Range\<close> header whose value is not empty, the proxy issues exactly one
  upstream request, and that request carries exactly one \<^verbatim>\<open>Range\<close> header, whose
  value is the inbound value, character for character.
\<close>

theorem proxy_pmtiles_forwards_range:
  assumes url: "truthy (query req ''url'')"
      and range: "headers req ''range'' = Some r"
      and nonempty: "r \<noteq> []"
  shows "\<exists>url hdrs. upstream_gets (snd (snd (proxy_pmtiles cfg w req st))) = [(url, hdrs)]
           \<and> filter (\<lambda>h. fst h = ''Range'') hdrs = [(''Range'', r)]"
proof -
  obtain authToken st' tes where
    tok: "getValidAccessToken cfg (check_time w) (token_outcome w) (token_time w) st = (authToken, st', tes)"
    by (cases "getValidAccessToken cfg (check_time w) (token_outcome w) (token_time w) st")
  have shape: "\<not> isTileJsonRequest req"
    using range nonempty by (simp add: isTileJsonRequest_def truthy_def)
  show ?thesis
    using range nonempty
    by (simp add: proxy_pmtiles_gets [OF url shape tok] truthy_def template_def)
qed

text \<open>The theorem at a request for the first 16384 bytes.\<close>

theorem proxy_pmtiles_forwards_range_witness:
  "\<exists>url hdrs.
     upstream_gets (snd (snd (proxy_pmtiles \<lparr>DATABRICKS_CLIENT_ID = Some ''id'', DATABRICKS_CLIENT_SECRET = Some ''secret'',
       DATABRICKS_HOST = Some ''host.example''\<rparr>
       \<lparr>check_time = 0,
        token_outcome = PostResponse 200 (Some \<lparr>access_token = Some ''tok'', expires_in = None\<rparr>),
        token_time = 5,
        upstream = FetchResponse \<lparr>up_status = 206, up_headers = Map.empty, up_body = Some ([''ab''], False)\<rparr>\<rparr>
       \<lparr>query = [''url'' \<mapsto> ''https://h.example/f.pmtiles''],
        headers = [''range'' \<mapsto> ''bytes=0-16383''], protocol = ''http''\<rparr>
       initial_state))) = [(url, hdrs)]
   \<and> filter (\<lambda>h. fst h = ''Range'') hdrs = [(''Range'', ''bytes=0-16383'')]"
  using proxy_pmtiles_forwards_range
    [of "\<lparr>query = [''url'' \<mapsto> ''https://h.example/f.pmtiles''],
          headers = [''range'' \<mapsto> ''bytes=0-16383''], protocol = ''http''\<rparr>"
        "''bytes=0-16383''"
        "\<lparr>DATABRICKS_CLIENT_ID = Some ''id'', DATABRICKS_CLIENT_SECRET = Some ''secret'',
       DATABRICKS_HOST = Some ''host.example''\<rparr>"
        "\<lparr>check_time = 0,
          token_outcome = PostResponse 200 (Some \<lparr>access_token = Some ''tok'', expires_in = None\<rparr>),
          token_time = 5,
          upstream = FetchResponse \<lparr>up_status = 206, up_headers = Map.empty, up_body = Some ([''ab''], False)\<rparr>\<rparr>"
        initial_state]
  by (simp add: truthy_def)

text \<open>
  Claim C4 as it is stated covers every request that carries a \<^verbatim>\<open>Range\<close> header.
  A \<^verbatim>\<open>Range\<close> header with an empty value fails the test \<^verbatim>\<open>if (range)\<close>: the
  upstream request is issued with the \<^verbatim>\<open>User-Agent\<close> header only.
\<close>

theorem proxy_pmtiles_empty_range_counterexample:
  "headers \<lparr>query = [''url'' \<mapsto> ''https://h.example/f.pmtiles''],
            headers = [''range'' \<mapsto> ''''], protocol = ''http''\<rparr> ''range'' = Some ''''
 \<and> upstream_gets (snd (snd (proxy_pmtiles \<lparr>DATABRICKS_CLIENT_ID = None, DATABRICKS_CLIENT_SECRET = None, DATABRICKS_HOST = None\<rparr>
       \<lparr>check_time = 0, token_outcome = PostNetworkError, token_time = 0, upstream = FetchNetworkError\<rparr>
       \<lparr>query = [''url'' \<mapsto> ''https://h.example/f.pmtiles''],
        headers = [''range'' \<mapsto> ''''], protocol = ''http''\<rparr>
       initial_state)))
   = [(''https://h.example/f.pmtiles'', [(''User-Agent'', ''PMTiles-Viewer/1.0'')])]"
proof -
  have tok: "getValidAccessToken \<lparr>DATABRICKS_CLIENT_ID = None, DATABRICKS_CLIENT_SECRET = None, DATABRICKS_HOST = None\<rparr> 0 PostNetworkError 0 initial_state =
      (None, initial_state,
       [ConsoleLog ''Token expired or expiring soon, fetching new token...'',
        ConsoleError ''Missing (some) required environment variables: DATABRICKS_CLIENT_ID, DATABRICKS_CLIENT_SECRET, DATABRICKS_HOST''])"
    by (simp add: getValidAccessToken_def fetchDatabricksToken_def truthy_def initial_state_def)
  show ?thesis
    using proxy_pmtiles_gets
      [of "\<lparr>query = [''url'' \<mapsto> ''https://h.example/f.pmtiles''],
            headers = [''range'' \<mapsto> ''''], protocol = ''http''\<rparr>"
          "\<lparr>DATABRICKS_CLIENT_ID = None, DATABRICKS_CLIENT_SECRET = None, DATABRICKS_HOST = None\<rparr>"
          "\<lparr>check_time = 0, token_outcome = PostNetworkError, token_time = 0, upstream = FetchNetworkError\<rparr>"
          initial_state None initial_state]
      tok
    by (simp add: truthy_def template_def isTileJsonRequest_def decode_plain_example)
qed

text \<open>
  Claim C5, as amended. For every upstream response with a status in 200..299 and a
  body, to a request that is not a metadata probe: the status the proxy sets is 206 if
  the upstream status is 206 and 200 otherwise, unless reading the body fails, which
  sets 500; \<^verbatim>\<open>Content-Range\<close>, \<^verbatim>\<open>Content-Length\<close> and \<^verbatim>\<open>Accept-Ranges\<close>
  each carry the upstream value when that is present and not empty, and are not set
  otherwise; \<^verbatim>\<open>Content-Type\<close> is \<^verbatim>\<open>application/octet-stream\<close>, and the three
  CORS headers are set. The chunks written are those of the upstream body.
\<close>

theorem proxy_pmtiles_success_headers:
  assumes url: "truthy (query req ''url'')"
      and shape: "\<not> isTileJsonRequest req"
      and up: "upstream w = FetchResponse r"
      and ok: "200 \<le> up_status r \<and> up_status r \<le> 299"
      and body: "up_body r = Some (chunks, fails)"
  shows "statusCode (fst (proxy_pmtiles cfg w req st)) =
           (if fails then 500 else if up_status r = 206 then 206 else 200)
       \<and> header (fst (proxy_pmtiles cfg w req st)) ''Content-Range'' =
           (if truthy (up_headers r ''content-range'') then up_headers r ''content-range'' else None)
       \<and> header (fst (proxy_pmtiles cfg w req st)) ''Content-Length'' =
           (if truthy (up_headers r ''content-length'') then up_headers r ''content-length'' else None)
       \<and> header (fst (proxy_pmtiles cfg w req st)) ''Accept-Ranges'' =
           (if truthy (up_headers r ''accept-ranges'') then up_headers r ''accept-ranges'' else None)
       \<and> header (fst (proxy_pmtiles cfg w req st)) ''Content-Type'' = Some ''application/octet-stream''
       \<and> header (fst (proxy_pmtiles cfg w req st)) ''Access-Control-Allow-Origin'' = Some ''*''
       \<and> header (fst (proxy_pmtiles cfg w req st)) ''Access-Control-Allow-Methods'' = Some ''GET, HEAD, OPTIONS''
       \<and> header (fst (proxy_pmtiles cfg w req st)) ''Access-Control-Allow-Headers'' = Some ''Range, Authorization''
       \<and> written (fst (proxy_pmtiles cfg w req st)) = chunks
       \<and> json_body (fst (proxy_pmtiles cfg w req st)) = None"
proof -
  note s = proxy_pmtiles_streamed [OF assms] pump_fields res_fields new_response_fields
    truthy_template
  have 1: "statusCode (fst (proxy_pmtiles cfg w req st)) =
           (if fails then 500 else if up_status r = 206 then 206 else 200)"
    by (simp add: s)
  have 2: "header (fst (proxy_pmtiles cfg w req st)) ''Content-Range'' =
           (if truthy (up_headers r ''content-range'') then up_headers r ''content-range'' else None)"
    by (simp add: s)
  have 3: "header (fst (proxy_pmtiles cfg w req st)) ''Content-Length'' =
           (if truthy (up_headers r ''content-length'') then up_headers r ''content-length'' else None)"
    by (simp add: s)
  have 4: "header (fst (proxy_pmtiles cfg w req st)) ''Accept-Ranges'' =
           (if truthy (up_headers r ''accept-ranges'') then up_headers r ''accept-ranges'' else None)"
    by (simp add: s)
  have 5: "header (fst (proxy_pmtiles cfg w req st)) ''Content-Type'' = Some ''application/octet-stream''"
    by (simp add: s)
  have 6: "header (fst (proxy_pmtiles cfg w req st)) ''Access-Control-Allow-Origin'' = Some ''*''"
    by (simp add: s)
  have 7: "header (fst (proxy_pmtiles cfg w req st)) ''Access-Control-Allow-Methods'' = Some ''GET, HEAD, OPTIONS''"
    by (simp add: s)
  have 8: "header (fst (proxy_pmtiles cfg w req st)) ''Access-Control-Allow-Headers'' = Some ''Range, Authorization''"
    by (simp add: s)
  have 9: "written (fst (proxy_pmtiles cfg w req st)) = chunks"
    by (simp add: s)
  have 10: "json_body (fst (proxy_pmtiles cfg w req st)) = None"
    by (simp add: s)
  show ?thesis
    by (intro conjI 1 2 3 4 5 6 7 8 9 10)
qed

text \<open>The theorem at a partial-content answer with all three headers.\<close>

theorem proxy_pmtiles_success_headers_witness:
  "statusCode (fst (proxy_pmtiles \<lparr>DATABRICKS_CLIENT_ID = None, DATABRICKS_CLIENT_SECRET = None, DATABRICKS_HOST = None\<rparr>
     \<lparr>check_time = 0, token_outcome = PostNetworkError, token_time = 0,
      upstream = FetchResponse
        \<lparr>up_status = 206,
         up_headers = [''content-range'' \<mapsto> ''bytes 0-1/10'', ''content-length'' \<mapsto> ''2'',
                       ''accept-ranges'' \<mapsto> ''bytes''],
         up_body = Some ([''ab''], False)\<rparr>\<rparr>
     \<lparr>query = [''url'' \<mapsto> ''https://h.example/f.pmtiles''],
      headers = [''range'' \<mapsto> ''bytes=0-1''], protocol = ''http''\<rparr>
     initial_state)) = 206
 \<and> header (fst (proxy_pmtiles \<lparr>DATABRICKS_CLIENT_ID = None, DATABRICKS_CLIENT_SECRET = None, DATABRICKS_HOST = None\<rparr>
     \<lparr>check_time = 0, token_outcome = PostNetworkError, token_time = 0,
      upstream = FetchResponse
        \<lparr>up_status = 206,
         up_headers = [''content-range'' \<mapsto> ''bytes 0-1/10'', ''content-length'' \<mapsto> ''2'',
                       ''accept-ranges'' \<mapsto> ''bytes''],
         up_body = Some ([''ab''], False)\<rparr>\<rparr>
     \<lparr>query = [''url'' \<mapsto> ''https://h.example/f.pmtiles''],
      headers = [''range'' \<mapsto> ''bytes=0-1''], protocol = ''http''\<rparr>
     initial_state)) ''Content-Range'' = Some ''bytes 0-1/10''
 \<and> written (fst (proxy_pmtiles \<lparr>DATABRICKS_CLIENT_ID = None, DATABRICKS_CLIENT_SECRET = None, DATABRICKS_HOST = None\<rparr>
     \<lparr>check_time = 0, token_outcome = PostNetworkError, token_time = 0,
      upstream = FetchResponse
        \<lparr>up_status = 206,
         up_headers = [''content-range'' \<mapsto> ''bytes 0-1/10'', ''content-length'' \<mapsto> ''2'',
                       ''accept-ranges'' \<mapsto> ''bytes''],
         up_body = Some ([''ab''], False)\<rparr>\<rparr>
     \<lparr>query = [''url'' \<mapsto> ''https://h.example/f.pmtiles''],
      headers = [''range'' \<mapsto> ''bytes=0-1''], protocol = ''http''\<rparr>
     initial_state)) = [''ab'']"
  using proxy_pmtiles_success_headers
    [of "\<lparr>query = [''url'' \<mapsto> ''https://h.example/f.pmtiles''],
          headers = [''range'' \<mapsto> ''bytes=0-1''], protocol = ''http''\<rparr>"
        "\<lparr>check_time = 0, token_outcome = PostNetworkError, token_time = 0,
          upstream = FetchResponse
            \<lparr>up_status = 206,
             up_headers = [''content-range'' \<mapsto> ''bytes 0-1/10'', ''content-length'' \<mapsto> ''2'',
                           ''accept-ranges'' \<mapsto> ''bytes''],
             up_body = Some ([''ab''], False)\<rparr>\<rparr>"
        "\<lparr>up_status = 206,
          up_headers = [''content-range'' \<mapsto> ''bytes 0-1/10'', ''content-length'' \<mapsto> ''2'',
                        ''accept-ranges'' \<mapsto> ''bytes''],
          up_body = Some ([''ab''], False)\<rparr>"
        "[''ab'']" False
        "\<lparr>DATABRICKS_CLIENT_ID = None, DATABRICKS_CLIENT_SECRET = None, DATABRICKS_HOST = None\<rparr>" initial_state]
  by (simp add: truthy_def isTileJsonRequest_def)

text \<open>
  Claim C5 as it is stated has \<^verbatim>\<open>Accept-Ranges\<close> copied whenever it is present
  upstream. An upstream \<^verbatim>\<open>Accept-Ranges\<close> header with an empty value is present, and
  the proxy's response has no \<^verbatim>\<open>Accept-Ranges\<close> header.
\<close>

theorem proxy_pmtiles_empty_header_counterexample:
  "up_headers \<lparr>up_status = 200, up_headers = [''accept-ranges'' \<mapsto> ''''],
               up_body = Some ([''ab''], False)\<rparr> ''accept-ranges'' = Some ''''
 \<and> header (fst (proxy_pmtiles \<lparr>DATABRICKS_CLIENT_ID = None, DATABRICKS_CLIENT_SECRET = None, DATABRICKS_HOST = None\<rparr>
     \<lparr>check_time = 0, token_outcome = PostNetworkError, token_time = 0,
      upstream = FetchResponse
        \<lparr>up_status = 200, up_headers = [''accept-ranges'' \<mapsto> ''''],
         up_body = Some ([''ab''], False)\<rparr>\<rparr>
     \<lparr>query = [''url'' \<mapsto> ''https://h.example/f.pmtiles''],
      headers = Map.empty, protocol = ''http''\<rparr>
     initial_state)) ''Accept-Ranges'' = None"
  using proxy_pmtiles_streamed
    [of "\<lparr>query = [''url'' \<mapsto> ''https://h.example/f.pmtiles''],
          headers = Map.empty, protocol = ''http''\<rparr>"
        "\<lparr>check_time = 0, token_outcome = PostNetworkError, token_time = 0,
          upstream = FetchResponse
            \<lparr>up_status = 200, up_headers = [''accept-ranges'' \<mapsto> ''''],
             up_body = Some ([''ab''], False)\<rparr>\<rparr>"
        "\<lparr>up_status = 200, up_headers = [''accept-ranges'' \<mapsto> ''''],
          up_body = Some ([''ab''], False)\<rparr>"
        "[''ab'']" False
        "\<lparr>DATABRICKS_CLIENT_ID = None, DATABRICKS_CLIENT_SECRET = None, DATABRICKS_HOST = None\<rparr>" initial_state]
  by (simp add: truthy_def isTileJsonRequest_def pump_fields res_fields new_response_fields)

text \<open>
  Claim C6, as amended. For every request with a \<^verbatim>\<open>url\<close> parameter that is not
  empty, no \<^verbatim>\<open>Range\<close> header (or an empty one) and an \<^verbatim>\<open>Accept\<close> header in
  which \<^verbatim>\<open>application/json\<close> occurs, the proxy answers with status 200 and the
  descriptor: type \<^verbatim>\<open>vector\<close>, one tiles entry that points back at this endpoint, minzoom 0, maxzoom 14. The token
  state is unchanged and the only effects are two console lines: no upstream request
  and no token request, whatever the world would answer.
\<close>

theorem proxy_pmtiles_metadata_probe:
  assumes url: "truthy (query req ''url'')"
      and range: "\<not> truthy (headers req ''range'')"
      and accept: "headers req ''accept'' = Some a"
      and json: "includes_str a ''application/json''"
  shows "proxy_pmtiles cfg w req st =
    (\<lparr>statusCode = 200, header = Map.empty,
      json_body = Some (JObject
        [(''type'', JString ''vector''),
         (''tiles'', JArray [JString (protocol req @ ''://'' @ template (headers req ''host'')
            @ ''/proxy/pmtiles?url=''
            @ (case decodeURIComponent (template (query req ''url'')) of
                 Some d \<Rightarrow> d | None \<Rightarrow> template (query req ''url'')))]),
         (''minzoom'', JNumber 0),
         (''maxzoom'', JNumber 14)]),
      written = [], ended = True\<rparr>,
     st,
     [ConsoleLog ''Proxy request received for URL:'',
      ConsoleLog (case decodeURIComponent (template (query req ''url'')) of
                    Some d \<Rightarrow> ''Decoded URL:'' | None \<Rightarrow> ''URL was not encoded, using as-is'')])"
proof -
  have "a \<noteq> []" using json by auto
  then have "isTileJsonRequest req"
    using range accept json by (simp add: isTileJsonRequest_def truthy_def template_def)
  then show ?thesis
    using url
    by (simp add: proxy_pmtiles_def Let_def res_json_def new_response_def)
qed

text \<open>The theorem at a probe for an encoded URL.\<close>

theorem proxy_pmtiles_metadata_probe_witness:
  "proxy_pmtiles \<lparr>DATABRICKS_CLIENT_ID = None, DATABRICKS_CLIENT_SECRET = None, DATABRICKS_HOST = None\<rparr>
     \<lparr>check_time = 0, token_outcome = PostNetworkError, token_time = 0, upstream = FetchNetworkError\<rparr>
     \<lparr>query = [''url'' \<mapsto> ''https%3A%2F%2Fh.example%2Ff.pmtiles''],
      headers = [''accept'' \<mapsto> ''application/json'', ''host'' \<mapsto> ''localhost:3000''],
      protocol = ''http''\<rparr>
     initial_state
   = (\<lparr>statusCode = 200, header = Map.empty,
       json_body = Some (JObject
         [(''type'', JString ''vector''),
          (''tiles'', JArray [JString ''http://localhost:3000/proxy/pmtiles?url=https://h.example/f.pmtiles'']),
          (''minzoom'', JNumber 0),
          (''maxzoom'', JNumber 14)]),
       written = [], ended = True\<rparr>,
      initial_state,
      [ConsoleLog ''Proxy request received for URL:'', ConsoleLog ''Decoded URL:''])"
  using proxy_pmtiles_metadata_probe
    [of "\<lparr>query = [''url'' \<mapsto> ''https%3A%2F%2Fh.example%2Ff.pmtiles''],
          headers = [''accept'' \<mapsto> ''application/json'', ''host'' \<mapsto> ''localhost:3000''],
          protocol = ''http''\<rparr>"
        "''application/json''"
        "\<lparr>DATABRICKS_CLIENT_ID = None, DATABRICKS_CLIENT_SECRET = None, DATABRICKS_HOST = None\<rparr>"
        "\<lparr>check_time = 0, token_outcome = PostNetworkError, token_time = 0, upstream = FetchNetworkError\<rparr>"
        initial_state]
  by (simp add: truthy_def template_def decode_example includes_example)

text \<open>
  Claim C6 as it is stated covers every request with no \<^verbatim>\<open>Range\<close> header and a JSON
  \<^verbatim>\<open>Accept\<close> header. Such a request without a \<^verbatim>\<open>url\<close> parameter is answered with
  status 400 and the error body, not with the descriptor: the \<^verbatim>\<open>url\<close> test comes
  first in the handler.
\<close>

theorem proxy_pmtiles_probe_without_url_counterexample:
  "query \<lparr>query = Map.empty, headers = [''accept'' \<mapsto> ''application/json'', ''host'' \<mapsto> ''localhost:3000''],
          protocol = ''http''\<rparr> ''url'' = None
 \<and> headers \<lparr>query = Map.empty, headers = [''accept'' \<mapsto> ''application/json'', ''host'' \<mapsto> ''localhost:3000''],
            protocol = ''http''\<rparr> ''range'' = None
 \<and> isTileJsonRequest
      \<lparr>query = Map.empty, headers = [''accept'' \<mapsto> ''application/json'', ''host'' \<mapsto> ''localhost:3000''],
       protocol = ''http''\<rparr>
 \<and> proxy_pmtiles
     \<lparr>DATABRICKS_CLIENT_ID = None, DATABRICKS_CLIENT_SECRET = None, DATABRICKS_HOST = None\<rparr>
     \<lparr>check_time = 0, token_outcome = PostNetworkError, token_time = 0, upstream = FetchNetworkError\<rparr>
     \<lparr>query = Map.empty, headers = [''accept'' \<mapsto> ''application/json'', ''host'' \<mapsto> ''localhost:3000''],
      protocol = ''http''\<rparr>
     initial_state
   = (\<lparr>statusCode = 400, header = Map.empty,
       json_body = Some (JObject [(''error'', JString ''URL parameter required'')]),
       written = [], ended = True\<rparr>,
      initial_state,
      [ConsoleLog ''Proxy request received for URL:''])"
  by (simp add: proxy_pmtiles_def isTileJsonRequest_def truthy_def template_def includes_example
        res_json_def res_status_def new_response_def)

text \<open>
  Claim C7. For every request to the proxy whose \<^verbatim>\<open>url\<close> parameter is missing (or
  empty), the answer is status 400 with the body \<^verbatim>\<open>{"error":"URL parameter required"}\<close>;
  the token state is unchanged and the only effect is one console line, so there is no
  upstream request.
\<close>

theorem proxy_pmtiles_missing_url:
  assumes "\<not> truthy (query req ''url'')"
  shows "proxy_pmtiles cfg w req st =
    (\<lparr>statusCode = 400, header = Map.empty,
      json_body = Some (JObject [(''error'', JString ''URL parameter required'')]),
      written = [], ended = True\<rparr>,
     st,
     [ConsoleLog ''Proxy request received for URL:''])"
  using assms
  by (simp add: proxy_pmtiles_def res_json_def res_status_def new_response_def)

text \<open>The theorem at a request with a \<^verbatim>\<open>Range\<close> header and no query.\<close>

theorem proxy_pmtiles_missing_url_witness:
  "\<not> truthy (query \<lparr>query = Map.empty, headers = [''range'' \<mapsto> ''bytes=0-99''], protocol = ''http''\<rparr> ''url'')
 \<and> proxy_pmtiles \<lparr>DATABRICKS_CLIENT_ID = None, DATABRICKS_CLIENT_SECRET = None, DATABRICKS_HOST = None\<rparr>
     \<lparr>check_time = 0, token_outcome = PostNetworkError, token_time = 0, upstream = FetchNetworkError\<rparr>
     \<lparr>query = Map.empty, headers = [''range'' \<mapsto> ''bytes=0-99''], protocol = ''http''\<rparr>
     initial_state
   = (\<lparr>statusCode = 400, header = Map.empty,
       json_body = Some (JObject [(''error'', JString ''URL parameter required'')]),
       written = [], ended = True\<rparr>,
      initial_state,
      [ConsoleLog ''Proxy request received for URL:''])"
  using proxy_pmtiles_missing_url
    [of "\<lparr>query = Map.empty, headers = [''range'' \<mapsto> ''bytes=0-99''], protocol = ''http''\<rparr>"
        "\<lparr>DATABRICKS_CLIENT_ID = None, DATABRICKS_CLIENT_SECRET = None, DATABRICKS_HOST = None\<rparr>"
        "\<lparr>check_time = 0, token_outcome = PostNetworkError, token_time = 0, upstream = FetchNetworkError\<rparr>"
        initial_state]
  by (simp add: truthy_def)

text \<open>
  Claim C8. For every request that is not a metadata probe and whose upstream
  response has a status outside 200..299 (206 lies inside), the answer is status 500
  with the body \<^verbatim>\<open>{"error":"Failed to fetch PMTiles file"}\<close>, no header set and no
  chunk written, and the effects hold exactly one upstream request: there is no retry.
\<close>

theorem proxy_pmtiles_upstream_error:
  assumes url: "truthy (query req ''url'')"
      and shape: "\<not> isTileJsonRequest req"
      and up: "upstream w = FetchResponse r"
      and bad: "up_status r < 200 \<or> 299 < up_status r"
  shows "fst (proxy_pmtiles cfg w req st) =
           \<lparr>statusCode = 500, header = Map.empty,
            json_body = Some (JObject [(''error'', JString ''Failed to fetch PMTiles file'')]),
            written = [], ended = True\<rparr>
       \<and> length (upstream_gets (snd (snd (proxy_pmtiles cfg w req st)))) = 1"
proof -
  obtain authToken st' tes where
    tok: "getValidAccessToken cfg (check_time w) (token_outcome w) (token_time w) st = (authToken, st', tes)"
    by (cases "getValidAccessToken cfg (check_time w) (token_outcome w) (token_time w) st")
  have "fst (proxy_pmtiles cfg w req st) =
           \<lparr>statusCode = 500, header = Map.empty,
            json_body = Some (JObject [(''error'', JString ''Failed to fetch PMTiles file'')]),
            written = [], ended = True\<rparr>"
  proof -
    have "\<not> (200 \<le> up_status r \<and> up_status r \<le> 299)"
      using bad by arith
    then show ?thesis
      using url shape
      by (simp add: proxy_pmtiles_def Let_def tok up res_json_def res_status_def new_response_def)
  qed
  moreover have "length (upstream_gets (snd (snd (proxy_pmtiles cfg w req st)))) = 1"
    by (simp add: proxy_pmtiles_gets [OF url shape tok])
  ultimately show ?thesis by simp
qed

text \<open>The theorem at an upstream answer with status 404.\<close>

theorem proxy_pmtiles_upstream_error_witness:
  "((404::nat) < 200 \<or> 299 < (404::nat))
 \<and> fst (proxy_pmtiles \<lparr>DATABRICKS_CLIENT_ID = None, DATABRICKS_CLIENT_SECRET = None, DATABRICKS_HOST = None\<rparr>
     \<lparr>check_time = 0, token_outcome = PostNetworkError, token_time = 0,
      upstream = FetchResponse \<lparr>up_status = 404, up_headers = Map.empty, up_body = Some ([''Not Found''], False)\<rparr>\<rparr>
     \<lparr>query = [''url'' \<mapsto> ''https://h.example/f.pmtiles''],
      headers = [''range'' \<mapsto> ''bytes=0-99''], protocol = ''http''\<rparr>
     initial_state)
   = \<lparr>statusCode = 500, header = Map.empty,
      json_body = Some (JObject [(''error'', JString ''Failed to fetch PMTiles file'')]),
      written = [], ended = True\<rparr>
 \<and> length (upstream_gets (snd (snd (proxy_pmtiles \<lparr>DATABRICKS_CLIENT_ID = None, DATABRICKS_CLIENT_SECRET = None, DATABRICKS_HOST = None\<rparr>
     \<lparr>check_time = 0, token_outcome = PostNetworkError, token_time = 0,
      upstream = FetchResponse \<lparr>up_status = 404, up_headers = Map.empty, up_body = Some ([''Not Found''], False)\<rparr>\<rparr>
     \<lparr>query = [''url'' \<mapsto> ''https://h.example/f.pmtiles''],
      headers = [''range'' \<mapsto> ''bytes=0-99''], protocol = ''http''\<rparr>
     initial_state)))) = 1"
  using proxy_pmtiles_upstream_error
    [of "\<lparr>query = [''url'' \<mapsto> ''https://h.example/f.pmtiles''],
          headers = [''range'' \<mapsto> ''bytes=0-99''], protocol = ''http''\<rparr>"
        "\<lparr>check_time = 0, token_outcome = PostNetworkError, token_time = 0,
          upstream = FetchResponse \<lparr>up_status = 404, up_headers = Map.empty, up_body = Some ([''Not Found''], False)\<rparr>\<rparr>"
        "\<lparr>up_status = 404, up_headers = Map.empty, up_body = Some ([''Not Found''], False)\<rparr>"
        "\<lparr>DATABRICKS_CLIENT_ID = None, DATABRICKS_CLIENT_SECRET = None, DATABRICKS_HOST = None\<rparr>" initial_state]
  by (simp add: truthy_def isTileJsonRequest_def)

text \<open>
  Claim C10. For every metadata probe, the tiles entry of the descriptor is
  the protocol, \<^verbatim>\<open>://\<close>, the host, \<^verbatim>\<open>/proxy/pmtiles?url=\<close> and then the target
  URL as the handler has decoded it (as it came, if it does not decode), with no
  encoding applied. For the target \<^verbatim>\<open>https://h.example/f?a=1&b=2\<close> the \<^verbatim>\<open>url\<close>
  parameter read from the advertised tiles URL is \<^verbatim>\<open>https://h.example/f?a=1\<close>, not
  the target; read from the same URL with the target encoded it is the target.
\<close>

theorem proxy_pmtiles_tiles_not_reencoded:
  "(isTileJsonRequest req \<and> query req ''url'' = Some u \<and> u \<noteq> [] \<longrightarrow>
      json_body (fst (proxy_pmtiles cfg w req st)) =
        Some (JObject
          [(''type'', JString ''vector''),
           (''tiles'', JArray [JString (protocol req @ ''://'' @ template (headers req ''host'')
              @ ''/proxy/pmtiles?url='' @ (case decodeURIComponent u of Some d \<Rightarrow> d | None \<Rightarrow> u))]),
           (''minzoom'', JNumber 0),
           (''maxzoom'', JNumber 14)]))
 \<and> json_body (fst (proxy_pmtiles cfg w
       \<lparr>query = [''url'' \<mapsto> ''https://h.example/f?a=1&b=2''],
        headers = [''accept'' \<mapsto> ''application/json'', ''host'' \<mapsto> ''localhost:3000''],
        protocol = ''http''\<rparr> st)) =
      Some (JObject
        [(''type'', JString ''vector''),
         (''tiles'', JArray [JString ''http://localhost:3000/proxy/pmtiles?url=https://h.example/f?a=1&b=2'']),
         (''minzoom'', JNumber 0),
         (''maxzoom'', JNumber 14)])
 \<and> query_param ''url'' ''http://localhost:3000/proxy/pmtiles?url=https://h.example/f?a=1&b=2''
      = Some ''https://h.example/f?a=1''
 \<and> query_param ''url''
       (''http://localhost:3000/proxy/pmtiles?url='' @ encodeURIComponent ''https://h.example/f?a=1&b=2'')
      = Some ''https://h.example/f?a=1&b=2''"
proof (intro conjI impI)
  assume "isTileJsonRequest req \<and> query req ''url'' = Some u \<and> u \<noteq> []"
  then show "json_body (fst (proxy_pmtiles cfg w req st)) =
        Some (JObject
          [(''type'', JString ''vector''),
           (''tiles'', JArray [JString (protocol req @ ''://'' @ template (headers req ''host'')
              @ ''/proxy/pmtiles?url='' @ (case decodeURIComponent u of Some d \<Rightarrow> d | None \<Rightarrow> u))]),
           (''minzoom'', JNumber 0),
           (''maxzoom'', JNumber 14)])"
    by (simp add: proxy_pmtiles_probe_body)
next
  have probe: "isTileJsonRequest
       \<lparr>query = [''url'' \<mapsto> ''https://h.example/f?a=1&b=2''],
        headers = [''accept'' \<mapsto> ''application/json'', ''host'' \<mapsto> ''localhost:3000''],
        protocol = ''http''\<rparr>"
    by (simp add: isTileJsonRequest_def truthy_def template_def includes_example)
  show "json_body (fst (proxy_pmtiles cfg w
       \<lparr>query = [''url'' \<mapsto> ''https://h.example/f?a=1&b=2''],
        headers = [''accept'' \<mapsto> ''application/json'', ''host'' \<mapsto> ''localhost:3000''],
        protocol = ''http''\<rparr> st)) =
      Some (JObject
        [(''type'', JString ''vector''),
         (''tiles'', JArray [JString ''http://localhost:3000/proxy/pmtiles?url=https://h.example/f?a=1&b=2'']),
         (''minzoom'', JNumber 0),
         (''maxzoom'', JNumber 14)])"
    using proxy_pmtiles_probe_body [OF probe, of "''https://h.example/f?a=1&b=2''" cfg w st]
    by (simp add: template_def decode_query_example)
next
  show "query_param ''url'' ''http://localhost:3000/proxy/pmtiles?url=https://h.example/f?a=1&b=2''
      = Some ''https://h.example/f?a=1''"
    by (rule query_param_example)
next
  show "query_param ''url''
       (''http://localhost:3000/proxy/pmtiles?url='' @ encodeURIComponent ''https://h.example/f?a=1&b=2'')
      = Some ''https://h.example/f?a=1&b=2''"
    by (rule query_param_encoded_example)
qed

text \<open>The theorem at a probe for an encoded URL.\<close>

theorem proxy_pmtiles_tiles_not_reencoded_witness:
  "isTileJsonRequest
     \<lparr>query = [''url'' \<mapsto> ''https%3A%2F%2Fh.example%2Ff.pmtiles''],
      headers = [''accept'' \<mapsto> ''application/json'', ''host'' \<mapsto> ''localhost:3000''],
      protocol = ''http''\<rparr>
 \<and> json_body (fst (proxy_pmtiles \<lparr>DATABRICKS_CLIENT_ID = None, DATABRICKS_CLIENT_SECRET = None, DATABRICKS_HOST = None\<rparr>
       \<lparr>check_time = 0, token_outcome = PostNetworkError, token_time = 0, upstream = FetchNetworkError\<rparr>
       \<lparr>query = [''url'' \<mapsto> ''https%3A%2F%2Fh.example%2Ff.pmtiles''],
        headers = [''accept'' \<mapsto> ''application/json'', ''host'' \<mapsto> ''localhost:3000''],
        protocol = ''http''\<rparr>
       initial_state)) =
      Some (JObject
        [(''type'', JString ''vector''),
         (''tiles'', JArray [JString ''http://localhost:3000/proxy/pmtiles?url=https://h.example/f.pmtiles'']),
         (''minzoom'', JNumber 0),
         (''maxzoom'', JNumber 14)])"
  using proxy_pmtiles_tiles_not_reencoded
    [of "\<lparr>query = [''url'' \<mapsto> ''https%3A%2F%2Fh.example%2Ff.pmtiles''],
          headers = [''accept'' \<mapsto> ''application/json'', ''host'' \<mapsto> ''localhost:3000''],
          protocol = ''http''\<rparr>"
        "''https%3A%2F%2Fh.example%2Ff.pmtiles''"
        "\<lparr>DATABRICKS_CLIENT_ID = None, DATABRICKS_CLIENT_SECRET = None, DATABRICKS_HOST = None\<rparr>"
        "\<lparr>check_time = 0, token_outcome = PostNetworkError, token_time = 0, upstream = FetchNetworkError\<rparr>"
        initial_state]
  by (simp add: isTileJsonRequest_def truthy_def template_def includes_example decode_example)

section \<open>Properties of the configuration endpoint\<close>

lemma encodeURIComponent_append:
  "encodeURIComponent (a @ b) = encodeURIComponent a @ encodeURIComponent b"
  by (simp add: encodeURIComponent_def)

lemma encode_scheme_example: "encodeURIComponent ''https://'' = ''https%3A%2F%2F''"
  by code_simp

lemma encode_path_example: "encodeURIComponent ''/api/2.0/fs/files/Volumes/x/y/z.pmtiles'' = ''%2Fapi%2F2.0%2Ffs%2Ffiles%2FVolumes%2Fx%2Fy%2Fz.pmtiles''"
  by code_simp

lemma encode_host_example: "encodeURIComponent ''host.example'' = ''host.example''"
  by code_simp

text \<open>
  Claim C9. For every request to the configuration endpoint with
  \<^verbatim>\<open>filePath=/Volumes/x/y/z.pmtiles\<close> and \<^verbatim>\<open>sourceLayer=layer1\<close>, whatever the
  configuration and the token state: the answer is status 200 with \<^verbatim>\<open>pmtilesUrl\<close>
  the proxy path followed by the percent-encoded upstream URL
  \<^verbatim>\<open>https://{host}/api/2.0/fs/files/Volumes/x/y/z.pmtiles\<close>, \<^verbatim>\<open>sourceLayer\<close> equal
  to \<^verbatim>\<open>layer1\<close>, the fixed \<^verbatim>\<open>baseMapUrl\<close> and zoom 7; the token state is unchanged
  and the only effects are two console lines, so there is no network request.
\<close>

theorem api_config_example:
  assumes "query req ''filePath'' = Some ''/Volumes/x/y/z.pmtiles''"
      and "query req ''sourceLayer'' = Some ''layer1''"
  shows "api_config cfg req st =
    (\<lparr>statusCode = 200, header = Map.empty,
      json_body = Some (JObject
        [(''pmtilesUrl'', JString (''/proxy/pmtiles?url='' @ encodeURIComponent
            (''https://'' @ template (DATABRICKS_HOST cfg) @ ''/api/2.0/fs/files/Volumes/x/y/z.pmtiles''))),
         (''sourceLayer'', JString ''layer1''),
         (''baseMapUrl'', JString ''https://tile.openstreetmap.org/{z}/{x}/{y}.png''),
         (''zoom'', JNumber 7)]),
      written = [], ended = True\<rparr>,
     st,
     [ConsoleLog ''Received parameters:'', ConsoleLog ''Generated URL:''])
   \<and> encodeURIComponent
        (''https://'' @ template (DATABRICKS_HOST cfg) @ ''/api/2.0/fs/files/Volumes/x/y/z.pmtiles'')
     = ''https%3A%2F%2F'' @ encodeURIComponent (template (DATABRICKS_HOST cfg))
        @ ''%2Fapi%2F2.0%2Ffs%2Ffiles%2FVolumes%2Fx%2Fy%2Fz.pmtiles''"
proof -
  have "encodeURIComponent
        (''https://'' @ template (DATABRICKS_HOST cfg) @ ''/api/2.0/fs/files/Volumes/x/y/z.pmtiles'')
     = ''https%3A%2F%2F'' @ encodeURIComponent (template (DATABRICKS_HOST cfg))
        @ ''%2Fapi%2F2.0%2Ffs%2Ffiles%2FVolumes%2Fx%2Fy%2Fz.pmtiles''"
    by (simp only: encodeURIComponent_append encode_scheme_example encode_path_example)
  moreover have "api_config cfg req st =
    (\<lparr>statusCode = 200, header = Map.empty,
      json_body = Some (JObject
        [(''pmtilesUrl'', JString (''/proxy/pmtiles?url='' @ encodeURIComponent
            (''https://'' @ template (DATABRICKS_HOST cfg) @ ''/api/2.0/fs/files/Volumes/x/y/z.pmtiles''))),
         (''sourceLayer'', JString ''layer1''),
         (''baseMapUrl'', JString ''https://tile.openstreetmap.org/{z}/{x}/{y}.png''),
         (''zoom'', JNumber 7)]),
      written = [], ended = True\<rparr>,
     st,
     [ConsoleLog ''Received parameters:'', ConsoleLog ''Generated URL:''])"
    using assms
    by (simp add: api_config_def Let_def res_json_def new_response_def template_def)
  ultimately show ?thesis by (rule conjI [rotated])
qed

text \<open>The theorem at the host \<^verbatim>\<open>host.example\<close>.\<close>

theorem api_config_example_witness:
  "api_config \<lparr>DATABRICKS_CLIENT_ID = Some ''id'', DATABRICKS_CLIENT_SECRET = Some ''secret'',
       DATABRICKS_HOST = Some ''host.example''\<rparr>
     \<lparr>query = [''filePath'' \<mapsto> ''/Volumes/x/y/z.pmtiles'', ''sourceLayer'' \<mapsto> ''layer1''],
      headers = Map.empty, protocol = ''http''\<rparr>
     initial_state
   = (\<lparr>statusCode = 200, header = Map.empty,
       json_body = Some (JObject
         [(''pmtilesUrl'', JString
             ''/proxy/pmtiles?url=https%3A%2F%2Fhost.example%2Fapi%2F2.0%2Ffs%2Ffiles%2FVolumes%2Fx%2Fy%2Fz.pmtiles''),
          (''sourceLayer'', JString ''layer1''),
          (''baseMapUrl'', JString ''https://tile.openstreetmap.org/{z}/{x}/{y}.png''),
          (''zoom'', JNumber 7)]),
       written = [], ended = True\<rparr>,
      initial_state,
      [ConsoleLog ''Received parameters:'', ConsoleLog ''Generated URL:''])"
  using api_config_example
    [of "\<lparr>query = [''filePath'' \<mapsto> ''/Volumes/x/y/z.pmtiles'', ''sourceLayer'' \<mapsto> ''layer1''],
          headers = Map.empty, protocol = ''http''\<rparr>"
        "\<lparr>DATABRICKS_CLIENT_ID = Some ''id'', DATABRICKS_CLIENT_SECRET = Some ''secret'',
       DATABRICKS_HOST = Some ''host.example''\<rparr>" initial_state]
  by (simp add: template_def encode_host_example)
end
